theory Spec2Isabelle
  imports Complex_Main "HOL-Library.Multiset" "HOL-Library.Sublist"
begin

section \<open>pyknot2.visualise: plotting space curves through interchangeable toolkits\<close>

text \<open>
  The module draws through three external toolkits (mayavi, matplotlib, vispy). The model
  records every toolkit call and every import attempt as an event of a trace, in program
  order, and makes every exception a value. Python floats are idealised as \<open>real\<close>s.
  The imports at the top of the module (numpy, colorsys, random, pyknot2.utils) are taken
  to have succeeded; the imports of the toolkits, which the functions make themselves, are
  part of the model.
\<close>

subsection \<open>Python values, exceptions, toolkit calls\<close>

text \<open>Values that travel through \<open>mode\<close> and \<open>**kwargs\<close>; \<open>PSeq\<close> stands for any
  sequence of values (tuple, list, one-dimensional array).\<close>

datatype pyval =
    PNone
  | PBool bool
  | PInt int
  | PFloat real
  | PStr string
  | PSeq "pyval list"

text \<open>Python truthiness, as tested by \<open>if\<close> and by \<open>and\<close>.\<close>

fun truthy :: "pyval \<Rightarrow> bool" where
  "truthy PNone = False"
| "truthy (PBool b) = b"
| "truthy (PInt i) = (i \<noteq> 0)"
| "truthy (PFloat x) = (x \<noteq> 0)"
| "truthy (PStr s) = (s \<noteq> [])"
| "truthy (PSeq vs) = (vs \<noteq> [])"

text \<open>\<open>a and b\<close> evaluates to \<open>a\<close> when \<open>a\<close> is falsy (and then never evaluates \<open>b\<close>),
  to \<open>b\<close> otherwise.\<close>

definition py_and :: "pyval \<Rightarrow> pyval \<Rightarrow> pyval" where
  "py_and a b = (if truthy a then b else a)"

datatype exn =
    ImportError string
  | ValueError string
  | TypeError string
  | Exception string
  | OtherError string

fun is_ImportError :: "exn \<Rightarrow> bool" where
  "is_ImportError (ImportError m) = True"
| "is_ImportError e = False"

fun is_ValueError :: "exn \<Rightarrow> bool" where
  "is_ValueError (ValueError m) = True"
| "is_ValueError e = False"

type_synonym kwargs = "(string \<times> pyval) list"

type_synonym point3 = "real \<times> real \<times> real"

type_synonym rgb = "real \<times> real \<times> real"

text \<open>A point of an n x m array with m at least 2: x, y and the remaining coordinates.\<close>

type_synonym point = "real \<times> real \<times> real list"

datatype call =
    Import string
  | MayClf
  | MayPlot3d "real list" "real list" "real list" pyval kwargs
  | PltFigure
  | FigAddSubplot3d
  | FigGca3d
  | AxPlot3d "real list" "real list" "real list"
  | FigShow
  | SceneCanvas
  | AddView
  | Tube "point3 list" "rgb list"
  | ViewAdd
  | SetCamera real
  | AffineTransform
  | Translate point3
  | CanvasShow
  | PltSubplots
  | AxPlot "real list" "real list"
  | SetXticks "real list"
  | SetYticks "real list"
  | SetXlim real real
  | SetYlim real real
  | AxPlotStart real real
  | AxPlotCrossings "real list" "real list"

text \<open>
  What the process can import and construct: \<open>importing env m\<close> is the exception that
  importing module \<open>m\<close> raises, \<open>figure env\<close> the one that \<open>plt.figure()\<close> raises and
  \<open>axes3d env\<close> the one that asking a figure for a \<open>projection='3d'\<close> axes raises;
  \<open>None\<close> means the step succeeds.
\<close>

record env =
  importing :: "string \<Rightarrow> exn option"
  figure :: "exn option"
  axes3d :: "exn option"

subsection \<open>Running code: a trace of calls and a result or an exception\<close>

type_synonym 'a run = "call list \<times> (exn + 'a)"

definition ok :: "'a \<Rightarrow> 'a run" where
  "ok x = ([], Inr x)"

definition raise :: "exn \<Rightarrow> 'a run" where
  "raise e = ([], Inl e)"

definition emit :: "call \<Rightarrow> unit run" where
  "emit c = ([c], Inr ())"

text \<open>A call that the environment may fail: the attempt is recorded either way.\<close>

definition attempt :: "exn option \<Rightarrow> call \<Rightarrow> unit run" where
  "attempt outcome c = ([c], case outcome of None \<Rightarrow> Inr () | Some e \<Rightarrow> Inl e)"

definition and_then :: "'a run \<Rightarrow> ('a \<Rightarrow> 'b run) \<Rightarrow> 'b run" where
  "and_then m f =
     (case m of
        (t, Inl e) \<Rightarrow> (t, Inl e)
      | (t, Inr x) \<Rightarrow> (case f x of (t', r) \<Rightarrow> (t @ t', r)))"

text \<open>\<open>try: m except <caught>: handler\<close>; an exception that is not caught propagates.\<close>

definition try_except :: "'a run \<Rightarrow> (exn \<Rightarrow> bool) \<Rightarrow> 'a run \<Rightarrow> 'a run" where
  "try_except m caught handler =
     (case m of
        (t, Inl e) \<Rightarrow>
          (if caught e then (case handler of (t', r) \<Rightarrow> (t @ t', r)) else (t, Inl e))
      | (t, Inr x) \<Rightarrow> (t, Inr x))"

definition import_module :: "env \<Rightarrow> string \<Rightarrow> unit run" where
  "import_module env m = attempt (importing env m) (Import m)"

definition succeeded :: "'a run \<Rightarrow> bool" where
  "succeeded m = (case snd m of Inl e \<Rightarrow> False | Inr x \<Rightarrow> True)"

subsection \<open>numpy and colorsys\<close>

text \<open>\<open>numpy.linspace(start, stop, num)\<close>: \<open>num\<close> evenly spaced samples over the closed
  interval, \<open>arange(num) * step + start\<close> with \<open>step = (stop - start) / (num - 1)\<close>; a
  single sample is \<open>start\<close>.\<close>

definition linspace :: "real \<Rightarrow> real \<Rightarrow> nat \<Rightarrow> real list" where
  "linspace start stop num =
     (if num = 1 then [start]
      else map (\<lambda>i. start + real i * ((stop - start) / real (num - 1))) [0..<num])"

text \<open>\<open>numpy.min\<close> and \<open>numpy.max\<close> of a one-dimensional array; a zero-size array has no
  minimum or maximum.\<close>

definition amin :: "real list \<Rightarrow> exn + real" where
  "amin xs =
     (case xs of
        [] \<Rightarrow> Inl (ValueError ''zero-size array to reduction operation minimum which has no identity'')
      | x # r \<Rightarrow> Inr (fold min r x))"

definition amax :: "real list \<Rightarrow> exn + real" where
  "amax xs =
     (case xs of
        [] \<Rightarrow> Inl (ValueError ''zero-size array to reduction operation maximum which has no identity'')
      | x # r \<Rightarrow> Inr (fold max r x))"

definition lift :: "exn + 'a \<Rightarrow> 'a run" where
  "lift r = ([], r)"

text \<open>\<open>numpy.average(points, axis=0)\<close> of an n x 3 array.\<close>

definition average0 :: "point3 list \<Rightarrow> point3" where
  "average0 points =
     (sum_list (map fst points) / real (length points),
      sum_list (map (fst \<circ> snd) points) / real (length points),
      sum_list (map (snd \<circ> snd) points) / real (length points))"

text \<open>\<open>int(x)\<close> on a float truncates towards zero.\<close>

definition py_int :: "real \<Rightarrow> int" where
  "py_int x = (if 0 \<le> x then \<lfloor>x\<rfloor> else \<lceil>x\<rceil>)"

text \<open>\<open>colorsys.hsv_to_rgb\<close> of the standard library.\<close>

definition hsv_to_rgb :: "real \<Rightarrow> real \<Rightarrow> real \<Rightarrow> rgb" where
  "hsv_to_rgb h s v =
     (if s = 0 then (v, v, v)
      else
        let i = py_int (h * 6);
            f = h * 6 - real_of_int i;
            p = v * (1 - s);
            q = v * (1 - s * f);
            t = v * (1 - s * (1 - f));
            i = i mod 6
        in if i = 0 then (v, t, p)
           else if i = 1 then (q, v, p)
           else if i = 2 then (p, v, t)
           else if i = 3 then (p, q, v)
           else if i = 4 then (t, p, v)
           else (v, p, q))"

text \<open>\<open>random.shuffle\<close>: for \<open>i\<close> from \<open>len(x) - 1\<close> down to 1, draw \<open>j\<close> below \<open>i + 1\<close>
  and swap \<open>x[i]\<close> with \<open>x[j]\<close>. The random source is a parameter: \<open>rnd i\<close> is the draw
  made at index \<open>i\<close>, reduced to the range the generator draws from.\<close>

fun shuffle_from :: "(nat \<Rightarrow> nat) \<Rightarrow> nat \<Rightarrow> 'a list \<Rightarrow> 'a list" where
  "shuffle_from rnd 0 xs = xs"
| "shuffle_from rnd (Suc i) xs =
     (let j = rnd (Suc i) mod (Suc i + 1)
      in shuffle_from rnd i (xs[Suc i := xs ! j, j := xs ! Suc i]))"

definition shuffle :: "(nat \<Rightarrow> nat) \<Rightarrow> 'a list \<Rightarrow> 'a list" where
  "shuffle rnd xs = shuffle_from rnd (length xs - 1) xs"

subsection \<open>Keyword arguments\<close>

definition kwarg :: "kwargs \<Rightarrow> string \<Rightarrow> pyval \<Rightarrow> pyval" where
  "kwarg kw k d = (case map_of kw k of None \<Rightarrow> d | Some v \<Rightarrow> v)"

definition without :: "string list \<Rightarrow> kwargs \<Rightarrow> kwargs" where
  "without ks kw = filter (\<lambda>(k, v). k \<notin> set ks) kw"

definition xs_of :: "point3 list \<Rightarrow> real list" where
  "xs_of points = map fst points"

definition ys_of :: "point3 list \<Rightarrow> real list" where
  "ys_of points = map (fst \<circ> snd) points"

definition zs_of :: "point3 list \<Rightarrow> real list" where
  "zs_of points = map (snd \<circ> snd) points"

subsection \<open>The toolkit adapters\<close>

text \<open>\<open>plot_line_mayavi(points, clf=True, tube_radius=1., colormap='hsv', mus=None, **kwargs)\<close>\<close>

definition plot_line_mayavi ::
  "env \<Rightarrow> point3 list \<Rightarrow> bool \<Rightarrow> pyval \<Rightarrow> pyval \<Rightarrow> pyval \<Rightarrow> kwargs \<Rightarrow> unit run" where
  "plot_line_mayavi env points clf tube_radius colormap mus kwargs =
     and_then (import_module env ''mayavi.mlab'') (\<lambda>_.
     and_then (if clf then emit MayClf else ok ()) (\<lambda>_.
     let mus = (if mus = PNone then PSeq (map PFloat (linspace 0 1 (length points))) else mus)
     in emit (MayPlot3d (xs_of points) (ys_of points) (zs_of points) mus
               ((''colormap'', colormap) # (''tube_radius'', tube_radius) # kwargs))))"

text \<open>\<open>plot_line_matplotlib(points, **kwargs)\<close>: the keyword arguments are not used.\<close>

definition plot_line_matplotlib :: "env \<Rightarrow> point3 list \<Rightarrow> kwargs \<Rightarrow> unit run" where
  "plot_line_matplotlib env points kwargs =
     and_then (import_module env ''matplotlib.pyplot'') (\<lambda>_.
     and_then (import_module env ''mpl_toolkits.mplot3d'') (\<lambda>_.
     and_then (attempt (figure env) PltFigure) (\<lambda>_.
     and_then (attempt (axes3d env) FigGca3d) (\<lambda>_.
     and_then (emit (AxPlot3d (xs_of points) (ys_of points) (zs_of points))) (\<lambda>_.
     emit FigShow)))))"

text \<open>\<open>n.max(n.max(points, axis=0))\<close>: the largest of the three column maxima.\<close>

definition max_coordinate :: "point3 list \<Rightarrow> exn + real" where
  "max_coordinate points =
     (case amax (xs_of points) of
        Inl e \<Rightarrow> Inl e
      | Inr mx \<Rightarrow>
          (case amax (ys_of points) of
             Inl e \<Rightarrow> Inl e
           | Inr my \<Rightarrow>
               (case amax (zs_of points) of
                  Inl e \<Rightarrow> Inl e
                | Inr mz \<Rightarrow> amax [mx, my, mz])))"

text \<open>\<open>plot_line_vispy(points, **kwargs)\<close>: the keyword arguments are not used; the canvas
  it returns is not modelled.\<close>

definition plot_line_vispy :: "env \<Rightarrow> point3 list \<Rightarrow> kwargs \<Rightarrow> unit run" where
  "plot_line_vispy env points kwargs =
     and_then (import_module env ''vispy'') (\<lambda>_.
     and_then (emit SceneCanvas) (\<lambda>_.
     and_then (emit AddView) (\<lambda>_.
     let colours = linspace 0 1 (length points);
         colours = map (\<lambda>c. hsv_to_rgb c 1 1) colours
     in
     and_then (emit (Tube points colours)) (\<lambda>_.
     and_then (emit ViewAdd) (\<lambda>_.
     and_then (lift (max_coordinate points)) (\<lambda>m.
     and_then (emit (SetCamera (1.5 * m))) (\<lambda>_.
     and_then (emit AffineTransform) (\<lambda>_.
     and_then (emit (Translate (case average0 points of (cx, cy, cz) \<Rightarrow>
                                  (- 1 * cx, - 1 * cy, - 1 * cz)))) (\<lambda>_.
     emit CanvasShow)))))))))"

subsection \<open>plot_line\<close>

definition probe_mayavi :: "env \<Rightarrow> pyval run" where
  "probe_mayavi env =
     try_except
       (and_then (import_module env ''mayavi.mlab'') (\<lambda>_. ok (PStr ''mayavi'')))
       is_ImportError
       (ok (PStr ''auto''))"

definition probe_matplotlib :: "env \<Rightarrow> pyval run" where
  "probe_matplotlib env =
     try_except
       (and_then (import_module env ''matplotlib.pyplot'') (\<lambda>_.
        and_then (import_module env ''mpl_toolkits.mplot3d'') (\<lambda>_.
        and_then (attempt (figure env) PltFigure) (\<lambda>_.
        and_then (attempt (axes3d env) FigAddSubplot3d) (\<lambda>_.
        ok (PStr ''matplotlib''))))))
       (\<lambda>e. is_ImportError e \<or> is_ValueError e)
       (ok (PStr ''auto''))"

definition probe_vispy :: "env \<Rightarrow> pyval run" where
  "probe_vispy env =
     try_except
       (and_then (import_module env ''vispy'') (\<lambda>_. ok (PStr ''vispy'')))
       is_ImportError
       (ok (PStr ''auto''))"

definition no_toolkit_message :: string where
  "no_toolkit_message = ''Couldn't import any of mayavi, vispy, or matplotlib's 3d axes.''"

text \<open>The call \<open>plot_line_mayavi(points, clf=clf, **kwargs)\<close>: the adapter binds
  \<open>tube_radius\<close>, \<open>colormap\<close> and \<open>mus\<close> from the keyword arguments, with its defaults
  for those that are missing, and keeps the others.\<close>

definition mayavi_adapter :: "env \<Rightarrow> point3 list \<Rightarrow> bool \<Rightarrow> kwargs \<Rightarrow> unit run" where
  "mayavi_adapter env points clf kwargs =
     plot_line_mayavi env points clf
       (kwarg kwargs ''tube_radius'' (PFloat 1))
       (kwarg kwargs ''colormap'' (PStr ''hsv''))
       (kwarg kwargs ''mus'' PNone)
       (without [''tube_radius'', ''colormap'', ''mus''] kwargs)"

text \<open>\<open>plot_line(points, mode='auto', clf=True, **kwargs)\<close>. The other two adapters are
  called as \<open>adapter(points, clf=clf, **kwargs)\<close> and receive \<open>clf\<close> among their keyword
  arguments.\<close>

definition plot_line :: "env \<Rightarrow> point3 list \<Rightarrow> pyval \<Rightarrow> bool \<Rightarrow> kwargs \<Rightarrow> unit run" where
  "plot_line env points mode clf kwargs =
     and_then (if mode = PStr ''auto'' then probe_mayavi env else ok mode) (\<lambda>mode.
     and_then (if mode = PStr ''auto'' then probe_matplotlib env else ok mode) (\<lambda>mode.
     and_then (if mode = PStr ''auto'' then probe_vispy env else ok mode) (\<lambda>mode.
     if mode = PStr ''auto'' then raise (ImportError no_toolkit_message)
     else if mode = PStr ''mayavi'' then
       mayavi_adapter env points clf kwargs
     else if mode = PStr ''vispy'' then
       plot_line_vispy env points ((''clf'', PBool clf) # kwargs)
     else if mode = PStr ''matplotlib'' then
       plot_line_matplotlib env points ((''clf'', PBool clf) # kwargs)
     else raise (Exception ''invalid toolkit/mode''))))"

subsection \<open>plot_projection\<close>

text \<open>The value of \<open>crossings is not None and len(crossings)\<close>.\<close>

definition crossings_guard :: "(real \<times> real) list option \<Rightarrow> pyval" where
  "crossings_guard crossings =
     py_and (PBool (crossings \<noteq> None))
            (PInt (int (length (case crossings of None \<Rightarrow> [] | Some cs \<Rightarrow> cs))))"

text \<open>\<open>plot_projection(points, crossings=None, mark_start=False, fig_ax=None, show=True)\<close>.
  The figure and axes handles are opaque: \<open>fig_ax\<close> only says whether the caller supplied
  them, and the pair that the function returns is not modelled.\<close>

definition plot_projection ::
  "env \<Rightarrow> point list \<Rightarrow> (real \<times> real) list option \<Rightarrow> bool \<Rightarrow> unit option \<Rightarrow> bool \<Rightarrow> unit run" where
  "plot_projection env points crossings mark_start fig_ax show =
     and_then (import_module env ''matplotlib.pyplot'') (\<lambda>_.
     and_then (if fig_ax \<noteq> None then ok () else attempt (figure env) PltSubplots) (\<lambda>_.
     and_then (emit (AxPlot (map fst points) (map (fst \<circ> snd) points))) (\<lambda>_.
     and_then (emit (SetXticks [])) (\<lambda>_.
     and_then (emit (SetYticks [])) (\<lambda>_.
     and_then (lift (amin (map fst points))) (\<lambda>xmin.
     and_then (lift (amin (map (fst \<circ> snd) points))) (\<lambda>ymin.
     and_then (lift (amax (map fst points))) (\<lambda>xmax.
     and_then (lift (amax (map (fst \<circ> snd) points))) (\<lambda>ymax.
     let dx = (xmax - xmin) / 10;
         dy = (ymax - ymin) / 10
     in
     and_then (emit (SetXlim (xmin - dx) (xmax + dx))) (\<lambda>_.
     and_then (emit (SetYlim (ymin - dy) (ymax + dy))) (\<lambda>_.
     and_then (if mark_start
               then (case points of
                       [] \<Rightarrow> raise (OtherError ''IndexError'')
                     | (x, y, r) # ps \<Rightarrow> emit (AxPlotStart x y))
               else ok ()) (\<lambda>_.
     and_then (if truthy (crossings_guard crossings)
               then (case crossings of
                       None \<Rightarrow> ok ()
                     | Some cs \<Rightarrow> emit (AxPlotCrossings (map fst cs) (map snd cs)))
               else ok ()) (\<lambda>_.
     if show then emit FigShow else ok ())))))))))))))"

subsection \<open>plot_cell\<close>

text \<open>A boundary is a number or a tuple of numbers.\<close>

datatype boundary = Scalar real | Extents "real list"

text \<open>Modelled from the spec: \<open>pyknot2.utils.ensure_shape_tuple\<close> is imported by the
  module but its source is not part of the files at hand. The spec reads a scalar boundary
  as a cube side length applied to all three axes, and the caller goes on to test for
  length 3: the helper turns the number \<open>s\<close> into the tuple \<open>(s, s, s)\<close>.\<close>

definition ensure_shape_tuple :: "real \<Rightarrow> real list" where
  "ensure_shape_tuple s = [s, s, s]"

text \<open>Lines 167 to 171 of the module: the value of the local \<open>boundary\<close> after them.\<close>

definition normalise_boundary :: "boundary \<Rightarrow> real list" where
  "normalise_boundary boundary =
     (let boundary = (case boundary of Scalar s \<Rightarrow> ensure_shape_tuple s | Extents t \<Rightarrow> t)
      in if length boundary = 3
         then [0, boundary ! 0, 0, boundary ! 1, 0, boundary ! 2]
         else boundary)"

text \<open>Lines 160 to 162: one colour per line.\<close>

definition hues_of :: "nat \<Rightarrow> real list" where
  "hues_of k = butlast (linspace 0 1 (k + 1))"

definition cell_colours :: "(nat \<Rightarrow> nat) \<Rightarrow> nat \<Rightarrow> rgb list" where
  "cell_colours rnd k = shuffle rnd (map (\<lambda>hue. hsv_to_rgb hue 1 1) (hues_of k))"

text \<open>The arguments of one call \<open>plot_line(segment, clf=False, color=colour, **kwargs)\<close>.\<close>

record line_call =
  lc_points :: "point3 list"
  lc_clf :: bool
  lc_color :: rgb
  lc_kwargs :: kwargs

text \<open>The calls of the nested loop of lines 163 to 165, in the order they are made.\<close>

definition cell_calls :: "point3 list list list \<Rightarrow> rgb list \<Rightarrow> kwargs \<Rightarrow> line_call list" where
  "cell_calls lines colours kwargs =
     concat (map (\<lambda>(line, colour).
                    map (\<lambda>segment. \<lparr>lc_points = segment, lc_clf = False,
                                     lc_color = colour, lc_kwargs = kwargs\<rparr>) line)
                 (zip lines colours))"

definition colour_val :: "rgb \<Rightarrow> pyval" where
  "colour_val c = (case c of (r, g, b) \<Rightarrow> PSeq [PFloat r, PFloat g, PFloat b])"

text \<open>Binding the arguments of such a call to \<open>plot_line\<close>'s parameters: a keyword that
  names \<open>points\<close> or repeats \<open>color\<close> is a TypeError, \<open>mode\<close> is taken from the keywords
  when it is there, and the remaining keywords go on with \<open>color\<close>.\<close>

definition invoke_plot_line :: "env \<Rightarrow> line_call \<Rightarrow> unit run" where
  "invoke_plot_line env c =
     (if map_of (lc_kwargs c) ''color'' \<noteq> None then
        raise (TypeError ''plot_line() got multiple values for keyword argument color'')
      else if map_of (lc_kwargs c) ''points'' \<noteq> None then
        raise (TypeError ''plot_line() got multiple values for argument points'')
      else
        plot_line env (lc_points c)
          (kwarg (lc_kwargs c) ''mode'' (PStr ''auto''))
          (lc_clf c)
          ((''color'', colour_val (lc_color c)) # without [''mode''] (lc_kwargs c)))"

fun run_calls :: "env \<Rightarrow> line_call list \<Rightarrow> unit run" where
  "run_calls env [] = ok ()"
| "run_calls env (c # cs) = and_then (invoke_plot_line env c) (\<lambda>_. run_calls env cs)"

text \<open>\<open>plot_cell(lines, boundary=None, clf=True, **kwargs)\<close>. The local \<open>mode\<close> that the
  function sets first is never read. The function ends after normalising the boundary;
  the result of the run is the final value of the local \<open>boundary\<close> (the Python function
  itself returns nothing).\<close>

definition plot_cell ::
  "env \<Rightarrow> (nat \<Rightarrow> nat) \<Rightarrow> point3 list list list \<Rightarrow> boundary option \<Rightarrow> bool \<Rightarrow> kwargs
     \<Rightarrow> real list option run" where
  "plot_cell env rnd lines boundary clf kwargs =
     and_then (import_module env ''mayavi.mlab'') (\<lambda>_.
     and_then (emit MayClf) (\<lambda>_.
     let colours = cell_colours rnd (length lines)
     in
     and_then (run_calls env (cell_calls lines colours kwargs)) (\<lambda>_.
     ok (case boundary of
           None \<Rightarrow> None
         | Some b \<Rightarrow> Some (normalise_boundary b)))))"

subsection \<open>Vocabulary for the statements\<close>

text \<open>A run that happens after the calls \<open>t\<close>.\<close>

definition after :: "call list \<Rightarrow> 'a run \<Rightarrow> 'a run" where
  "after t m = (t @ fst m, snd m)"

text \<open>Importing module \<open>m\<close> raises ImportError.\<close>

definition import_fails :: "env \<Rightarrow> string \<Rightarrow> bool" where
  "import_fails env m = (case importing env m of None \<Rightarrow> False | Some e \<Rightarrow> is_ImportError e)"

fun first_failure :: "exn option list \<Rightarrow> exn option" where
  "first_failure [] = None"
| "first_failure (None # steps) = first_failure steps"
| "first_failure (Some e # steps) = Some e"

text \<open>What the four steps of the matplotlib probe (two imports, the figure, the 3D
  subplot) raise first, if any of them raises.\<close>

definition matplotlib_probe_failure :: "env \<Rightarrow> exn option" where
  "matplotlib_probe_failure env =
     first_failure [importing env ''matplotlib.pyplot'', importing env ''mpl_toolkits.mplot3d'',
                    figure env, axes3d env]"

text \<open>The calls that set axis limits, and the calls that draw crossing markers.\<close>

fun is_limit :: "call \<Rightarrow> bool" where
  "is_limit (SetXlim lo hi) = True"
| "is_limit (SetYlim lo hi) = True"
| "is_limit c = False"

fun is_crossing_marker :: "call \<Rightarrow> bool" where
  "is_crossing_marker (AxPlotCrossings xs ys) = True"
| "is_crossing_marker c = False"

text \<open>The mayavi draw of one segment in one colour, with the adapter's defaults for the
  tube radius, the colour map and the positions along the line.\<close>

definition mayavi_draw :: "point3 list \<Rightarrow> rgb \<Rightarrow> call" where
  "mayavi_draw segment colour =
     MayPlot3d (xs_of segment) (ys_of segment) (zs_of segment)
       (PSeq (map PFloat (linspace 0 1 (length segment))))
       [(''colormap'', PStr ''hsv''), (''tube_radius'', PFloat 1), (''color'', colour_val colour)]"

subsection \<open>Concrete environments and inputs\<close>

text \<open>An environment in which every import and every construction succeeds, one without
  mayavi, one without mayavi and without 3D axes, and one where no module imports.\<close>

definition all_ok :: env where
  "all_ok = \<lparr>importing = (\<lambda>m. None), figure = None, axes3d = None\<rparr>"

definition no_mayavi :: env where
  "no_mayavi =
     \<lparr>importing = (\<lambda>m. if m = ''mayavi.mlab''
                          then Some (ImportError ''No module named mayavi'') else None),
      figure = None, axes3d = None\<rparr>"

definition no_mayavi_no_3d :: env where
  "no_mayavi_no_3d =
     \<lparr>importing = (\<lambda>m. if m = ''mayavi.mlab''
                          then Some (ImportError ''No module named mayavi'') else None),
      figure = None, axes3d = Some (ValueError ''Unknown projection 3d'')\<rparr>"

definition nothing_imports :: env where
  "nothing_imports =
     \<lparr>importing = (\<lambda>m. Some (ImportError ''No module'')), figure = None, axes3d = None\<rparr>"

definition square_wave :: "point3 list" where
  "square_wave = [(0, 0, 0), (1, 0, 0), (1, 1, 0), (2, 1, 0)]"

definition below_origin :: "point3 list" where
  "below_origin = [(- 1, - 2, - 3), (- 3, - 4, - 5)]"

definition flat_line :: "point list" where
  "flat_line = [(0, 5, [0]), (10, 5, [0]), (4, 5, [1])]"

definition single_point :: "point list" where
  "single_point = [(3, 5, [7])]"

definition three_by_two :: "point3 list list list" where
  "three_by_two =
     [[[(0, 0, 0), (1, 0, 0)], [(1, 0, 0), (1, 1, 0)]],
      [[(0, 0, 1), (1, 0, 1)], [(1, 0, 1), (1, 1, 1)]],
      [[(0, 0, 2), (1, 0, 2)], [(1, 0, 2), (1, 1, 2)]]]"

text \<open>The spec's words for the camera distance of the vispy adapter, to compare with what
  the adapter computes: the largest absolute coordinate value.\<close>

definition spec_max_abs_coordinate :: "point3 list \<Rightarrow> real" where
  "spec_max_abs_coordinate points =
     fold max (map abs (concat (map (\<lambda>(x, y, z). [x, y, z]) points))) 0"

section \<open>Properties\<close>

lemmas run_defs = ok_def raise_def emit_def attempt_def and_then_def try_except_def
  import_module_def lift_def

subsection \<open>Sequencing\<close>

lemma and_then_ok: "and_then (ok x) f = f x"
  by (cases "f x") (simp add: run_defs)

lemma and_then_raise: "and_then (raise e) f = raise e"
  by (simp add: run_defs)

lemma and_then_emit: "and_then (emit c) f = after [c] (f ())"
  by (cases "f ()") (simp add: run_defs after_def)

lemma and_then_attempt:
  "and_then (attempt outcome c) f =
     (case outcome of None \<Rightarrow> after [c] (f ()) | Some e \<Rightarrow> ([c], Inl e))"
  by (cases "f ()"; cases outcome) (simp_all add: run_defs after_def)

lemma and_then_after: "and_then (after t m) f = after t (and_then m f)"
  by (cases m; cases "snd m") (auto simp: and_then_def after_def split: prod.splits)

lemma after_after: "after t (after u m) = after (t @ u) m"
  by (simp add: after_def)

lemma fst_after: "fst (after t m) = t @ fst m"
  by (simp add: after_def)

lemma snd_after: "snd (after t m) = snd m"
  by (simp add: after_def)

lemma after_Nil: "after [] m = m"
  by (simp add: after_def)

lemma probe_mayavi_eq:
  "probe_mayavi env =
     ([Import ''mayavi.mlab''],
      case importing env ''mayavi.mlab'' of
        None \<Rightarrow> Inr (PStr ''mayavi'')
      | Some e \<Rightarrow> if is_ImportError e then Inr (PStr ''auto'') else Inl e)"
  by (simp add: probe_mayavi_def run_defs split: option.splits)

lemma probe_vispy_eq:
  "probe_vispy env =
     ([Import ''vispy''],
      case importing env ''vispy'' of
        None \<Rightarrow> Inr (PStr ''vispy'')
      | Some e \<Rightarrow> if is_ImportError e then Inr (PStr ''auto'') else Inl e)"
  by (simp add: probe_vispy_def run_defs split: option.splits)

lemma probe_matplotlib_result:
  "snd (probe_matplotlib env) =
     (case matplotlib_probe_failure env of
        None \<Rightarrow> Inr (PStr ''matplotlib'')
      | Some e \<Rightarrow> if is_ImportError e \<or> is_ValueError e then Inr (PStr ''auto'') else Inl e)"
  by (simp add: probe_matplotlib_def matplotlib_probe_failure_def run_defs split: option.splits)

lemma probe_matplotlib_ok_trace:
  "matplotlib_probe_failure env = None \<Longrightarrow>
   fst (probe_matplotlib env) =
     [Import ''matplotlib.pyplot'', Import ''mpl_toolkits.mplot3d'', PltFigure, FigAddSubplot3d]"
  by (cases "importing env ''matplotlib.pyplot''"; cases "importing env ''mpl_toolkits.mplot3d''";
      cases "figure env"; cases "axes3d env")
    (simp_all add: probe_matplotlib_def matplotlib_probe_failure_def run_defs)

lemma and_then_probe:
  "and_then (t, Inr x) f = after t (f x)"
  by (cases "f x") (simp add: and_then_def after_def)

lemma mayavi_adapter_events:
  "c \<in> set (fst (mayavi_adapter env points clf kwargs)) \<Longrightarrow>
   c = Import ''mayavi.mlab'' \<or> c = MayClf \<or> (\<exists>x y z m k. c = MayPlot3d x y z m k)"
  by (auto simp: mayavi_adapter_def plot_line_mayavi_def run_defs Let_def split: option.splits if_splits)

lemma matplotlib_adapter_events:
  "c \<in> set (fst (plot_line_matplotlib env points kwargs)) \<Longrightarrow>
   c \<in> {Import ''matplotlib.pyplot'', Import ''mpl_toolkits.mplot3d'', PltFigure, FigGca3d, FigShow}
   \<or> (\<exists>x y z. c = AxPlot3d x y z)"
  by (auto simp: plot_line_matplotlib_def run_defs Let_def split: option.splits if_splits)

lemma probe_matplotlib_events:
  "set (fst (probe_matplotlib env)) \<subseteq>
     {Import ''matplotlib.pyplot'', Import ''mpl_toolkits.mplot3d'', PltFigure, FigAddSubplot3d}"
  by (cases "importing env ''matplotlib.pyplot''"; cases "importing env ''mpl_toolkits.mplot3d''";
      cases "figure env"; cases "axes3d env")
    (simp_all add: probe_matplotlib_def run_defs)

subsection \<open>plot_line in automatic mode\<close>

text \<open>
  Claim C1. With \<open>mode='auto'\<close>, \<open>plot_line\<close> probes mayavi, then matplotlib, then vispy.
  If mayavi imports, the mayavi adapter runs and neither matplotlib nor vispy is probed.
  If importing mayavi raises ImportError and the four steps of the matplotlib probe (two
  imports, a figure, a 3D subplot) all succeed, the matplotlib adapter runs and vispy is not
  probed. If the first failing step of the matplotlib probe raises ImportError or
  ValueError, whichever step it is, the probe falls through in the same way, and when
  vispy imports the vispy adapter runs.
\<close>

theorem plot_line_auto_priority:
  "(importing env ''mayavi.mlab'' = None \<longrightarrow>
      plot_line env pts (PStr ''auto'') clf kw =
        after [Import ''mayavi.mlab''] (mayavi_adapter env pts clf kw)
      \<and> Import ''matplotlib.pyplot'' \<notin> set (fst (plot_line env pts (PStr ''auto'') clf kw))
      \<and> Import ''vispy'' \<notin> set (fst (plot_line env pts (PStr ''auto'') clf kw)))
   \<and> (import_fails env ''mayavi.mlab'' \<and> matplotlib_probe_failure env = None \<longrightarrow>
      plot_line env pts (PStr ''auto'') clf kw =
        after [Import ''mayavi.mlab'', Import ''matplotlib.pyplot'',
               Import ''mpl_toolkits.mplot3d'', PltFigure, FigAddSubplot3d]
          (plot_line_matplotlib env pts ((''clf'', PBool clf) # kw))
      \<and> Import ''vispy'' \<notin> set (fst (plot_line env pts (PStr ''auto'') clf kw)))
   \<and> (import_fails env ''mayavi.mlab''
       \<and> (\<exists>e. matplotlib_probe_failure env = Some e \<and> (is_ImportError e \<or> is_ValueError e))
       \<and> importing env ''vispy'' = None \<longrightarrow>
      plot_line env pts (PStr ''auto'') clf kw =
        after (Import ''mayavi.mlab'' # fst (probe_matplotlib env) @ [Import ''vispy''])
          (plot_line_vispy env pts ((''clf'', PBool clf) # kw)))"
proof (intro conjI impI)
  assume a: "importing env ''mayavi.mlab'' = None"
  show eq: "plot_line env pts (PStr ''auto'') clf kw =
        after [Import ''mayavi.mlab''] (mayavi_adapter env pts clf kw)"
    by (simp add: plot_line_def probe_mayavi_eq a and_then_probe and_then_ok after_after
        mayavi_adapter_def)
  show "Import ''matplotlib.pyplot'' \<notin> set (fst (plot_line env pts (PStr ''auto'') clf kw))"
    using mayavi_adapter_events [of "Import ''matplotlib.pyplot''" env pts clf kw]
    by (auto simp: eq fst_after)
  show "Import ''vispy'' \<notin> set (fst (plot_line env pts (PStr ''auto'') clf kw))"
    using mayavi_adapter_events [of "Import ''vispy''" env pts clf kw]
    by (auto simp: eq fst_after)
next
  assume a: "import_fails env ''mayavi.mlab'' \<and> matplotlib_probe_failure env = None"
  then obtain e where e: "importing env ''mayavi.mlab'' = Some e" "is_ImportError e"
    by (auto simp: import_fails_def split: option.splits)
  have pm: "probe_matplotlib env =
      ([Import ''matplotlib.pyplot'', Import ''mpl_toolkits.mplot3d'', PltFigure, FigAddSubplot3d],
       Inr (PStr ''matplotlib''))"
    using a probe_matplotlib_ok_trace [of env] probe_matplotlib_result [of env]
    by (simp add: prod_eq_iff)
  show eq: "plot_line env pts (PStr ''auto'') clf kw =
        after [Import ''mayavi.mlab'', Import ''matplotlib.pyplot'',
               Import ''mpl_toolkits.mplot3d'', PltFigure, FigAddSubplot3d]
          (plot_line_matplotlib env pts ((''clf'', PBool clf) # kw))"
    by (simp add: plot_line_def probe_mayavi_eq e pm and_then_probe and_then_ok after_after)
  show "Import ''vispy'' \<notin> set (fst (plot_line env pts (PStr ''auto'') clf kw))"
    using matplotlib_adapter_events [of "Import ''vispy''" env pts "(''clf'', PBool clf) # kw"]
    by (auto simp: eq fst_after)
next
  assume a: "import_fails env ''mayavi.mlab''
       \<and> (\<exists>e. matplotlib_probe_failure env = Some e \<and> (is_ImportError e \<or> is_ValueError e))
       \<and> importing env ''vispy'' = None"
  then obtain e where e: "importing env ''mayavi.mlab'' = Some e" "is_ImportError e"
    by (auto simp: import_fails_def split: option.splits)
  obtain t where pm: "probe_matplotlib env = (t, Inr (PStr ''auto''))"
    using a probe_matplotlib_result [of env] by (cases "probe_matplotlib env") auto
  have v: "importing env ''vispy'' = None" using a by simp
  show "plot_line env pts (PStr ''auto'') clf kw =
        after (Import ''mayavi.mlab'' # fst (probe_matplotlib env) @ [Import ''vispy''])
          (plot_line_vispy env pts ((''clf'', PBool clf) # kw))"
    by (simp add: plot_line_def probe_mayavi_eq e pm and_then_probe and_then_after
        after_after probe_vispy_eq v)
qed

theorem plot_line_auto_priority_witness:
  "importing all_ok ''mayavi.mlab'' = None
   \<and> plot_line all_ok square_wave (PStr ''auto'') True [] =
       ([Import ''mayavi.mlab'', Import ''mayavi.mlab'', MayClf,
         MayPlot3d [0, 1, 1, 2] [0, 0, 1, 1] [0, 0, 0, 0]
           (PSeq [PFloat 0, PFloat (1 / 3), PFloat (2 / 3), PFloat 1])
           [(''colormap'', PStr ''hsv''), (''tube_radius'', PFloat 1)]], Inr ())
   \<and> import_fails no_mayavi ''mayavi.mlab'' \<and> matplotlib_probe_failure no_mayavi = None
   \<and> plot_line no_mayavi square_wave (PStr ''auto'') True [] =
       ([Import ''mayavi.mlab'', Import ''matplotlib.pyplot'', Import ''mpl_toolkits.mplot3d'',
         PltFigure, FigAddSubplot3d,
         Import ''matplotlib.pyplot'', Import ''mpl_toolkits.mplot3d'', PltFigure, FigGca3d,
         AxPlot3d [0, 1, 1, 2] [0, 0, 1, 1] [0, 0, 0, 0], FigShow], Inr ())
   \<and> import_fails no_mayavi_no_3d ''mayavi.mlab''
   \<and> matplotlib_probe_failure no_mayavi_no_3d = Some (ValueError ''Unknown projection 3d'')
   \<and> importing no_mayavi_no_3d ''vispy'' = None
   \<and> fst (plot_line no_mayavi_no_3d square_wave (PStr ''auto'') True []) =
       [Import ''mayavi.mlab'', Import ''matplotlib.pyplot'', Import ''mpl_toolkits.mplot3d'',
         PltFigure, FigAddSubplot3d, Import ''vispy''] @
       fst (plot_line_vispy no_mayavi_no_3d square_wave [(''clf'', PBool True)])"
  using plot_line_auto_priority [of all_ok square_wave True "[]"]
    plot_line_auto_priority [of no_mayavi square_wave True "[]"]
    plot_line_auto_priority [of no_mayavi_no_3d square_wave True "[]"]
  by (simp add: all_ok_def no_mayavi_def no_mayavi_no_3d_def import_fails_def
      matplotlib_probe_failure_def after_def mayavi_adapter_def plot_line_mayavi_def
      plot_line_matplotlib_def probe_matplotlib_def run_defs square_wave_def kwarg_def without_def
      linspace_def xs_of_def ys_of_def zs_of_def)

text \<open>
  Claim C4. With \<open>mode='auto'\<close>, when importing mayavi raises ImportError, the matplotlib
  probe fails with ImportError or ValueError and importing vispy raises ImportError,
  \<open>plot_line\<close> raises the ImportError whose message names mayavi, matplotlib and vispy, and
  the calls made are the probes only: no adapter call is among them.
\<close>

theorem plot_line_auto_no_toolkit:
  assumes "import_fails env ''mayavi.mlab''"
    and "\<exists>e. matplotlib_probe_failure env = Some e \<and> (is_ImportError e \<or> is_ValueError e)"
    and "import_fails env ''vispy''"
  shows "snd (plot_line env pts (PStr ''auto'') clf kw) = Inl (ImportError no_toolkit_message)
    \<and> sublist ''mayavi'' no_toolkit_message
    \<and> sublist ''matplotlib'' no_toolkit_message
    \<and> sublist ''vispy'' no_toolkit_message
    \<and> fst (plot_line env pts (PStr ''auto'') clf kw) =
        Import ''mayavi.mlab'' # fst (probe_matplotlib env) @ [Import ''vispy'']
    \<and> set (fst (plot_line env pts (PStr ''auto'') clf kw)) \<subseteq>
        {Import ''mayavi.mlab'', Import ''matplotlib.pyplot'', Import ''mpl_toolkits.mplot3d'',
         PltFigure, FigAddSubplot3d, Import ''vispy''}"
proof -
  from assms(1) obtain e where e: "importing env ''mayavi.mlab'' = Some e" "is_ImportError e"
    by (auto simp: import_fails_def split: option.splits)
  from assms(3) obtain e' where e': "importing env ''vispy'' = Some e'" "is_ImportError e'"
    by (auto simp: import_fails_def split: option.splits)
  obtain t where pm: "probe_matplotlib env = (t, Inr (PStr ''auto''))"
    using assms(2) probe_matplotlib_result [of env] by (cases "probe_matplotlib env") auto
  have run: "plot_line env pts (PStr ''auto'') clf kw =
      (Import ''mayavi.mlab'' # fst (probe_matplotlib env) @ [Import ''vispy''],
       Inl (ImportError no_toolkit_message))"
    by (simp add: plot_line_def probe_mayavi_eq e pm and_then_probe and_then_after
        after_after probe_vispy_eq e' after_def raise_def)
  have m1: "sublist ''mayavi'' no_toolkit_message"
    by (simp add: no_toolkit_message_def sublist_Cons_right)
  have m2: "sublist ''matplotlib'' no_toolkit_message"
    by (simp add: no_toolkit_message_def sublist_Cons_right)
  have m3: "sublist ''vispy'' no_toolkit_message"
    by (simp add: no_toolkit_message_def sublist_Cons_right)
  have ev: "set (fst (plot_line env pts (PStr ''auto'') clf kw)) \<subseteq>
        {Import ''mayavi.mlab'', Import ''matplotlib.pyplot'', Import ''mpl_toolkits.mplot3d'',
         PltFigure, FigAddSubplot3d, Import ''vispy''}"
    using probe_matplotlib_events [of env] by (auto simp: run)
  from run m1 m2 m3 ev show ?thesis by simp
qed

theorem plot_line_auto_no_toolkit_witness:
  "import_fails nothing_imports ''mayavi.mlab''
   \<and> matplotlib_probe_failure nothing_imports = Some (ImportError ''No module'')
   \<and> import_fails nothing_imports ''vispy''
   \<and> plot_line nothing_imports square_wave (PStr ''auto'') True [] =
       ([Import ''mayavi.mlab'', Import ''matplotlib.pyplot'', Import ''vispy''],
        Inl (ImportError no_toolkit_message))"
proof -
  have h1: "import_fails nothing_imports ''mayavi.mlab''"
    by (simp add: import_fails_def nothing_imports_def)
  have h2: "\<exists>e. matplotlib_probe_failure nothing_imports = Some e \<and> (is_ImportError e \<or> is_ValueError e)"
    by (simp add: matplotlib_probe_failure_def nothing_imports_def)
  have h3: "import_fails nothing_imports ''vispy''"
    by (simp add: import_fails_def nothing_imports_def)
  have t: "fst (probe_matplotlib nothing_imports) = [Import ''matplotlib.pyplot'']"
    by (simp add: probe_matplotlib_def nothing_imports_def run_defs)
  from plot_line_auto_no_toolkit [OF h1 h2 h3, of square_wave True "[]"] h1 h3 t
  show ?thesis
    by (simp add: prod_eq_iff matplotlib_probe_failure_def nothing_imports_def)
qed

subsection \<open>Shuffling and hue sampling\<close>

lemma length_shuffle_from: "length (shuffle_from rnd i xs) = length xs"
  by (induction i arbitrary: xs) (simp_all add: Let_def)

lemma mset_shuffle_from: "i < length xs \<Longrightarrow> mset (shuffle_from rnd i xs) = mset xs"
proof (induction i arbitrary: xs)
  case 0
  show ?case by simp
next
  case (Suc i)
  define j where "j = rnd (Suc i) mod (Suc i + 1)"
  have j: "j < length xs"
  proof -
    have "j < Suc i + 1" unfolding j_def by (rule mod_less_divisor) simp
    with Suc.prems show ?thesis by linarith
  qed
  have swap: "mset (xs[Suc i := xs ! j, j := xs ! Suc i]) = mset xs"
    using mset_swap [OF j Suc.prems] .
  have "i < length (xs[Suc i := xs ! j, j := xs ! Suc i])"
    using Suc.prems by simp
  from Suc.IH [OF this] swap show ?case
    by (simp add: Let_def j_def)
qed

lemma length_shuffle: "length (shuffle rnd xs) = length xs"
  by (simp add: shuffle_def length_shuffle_from)

lemma mset_shuffle: "mset (shuffle rnd xs) = mset xs"
proof (cases xs)
  case Nil
  then show ?thesis by (simp add: shuffle_def)
next
  case (Cons x r)
  then have "length xs - 1 < length xs" by simp
  then show ?thesis unfolding shuffle_def by (rule mset_shuffle_from)
qed

lemma hues_of_eq: "hues_of k = map (\<lambda>i. real i / real k) [0..<k]"
proof (cases "k = 0")
  case True
  then show ?thesis by (simp add: hues_of_def linspace_def)
next
  case False
  then have "hues_of k = butlast (map (\<lambda>i. real i / real k) [0..<Suc k])"
    by (simp add: hues_of_def linspace_def)
  also have "\<dots> = map (\<lambda>i. real i / real k) (butlast [0..<Suc k])"
    by (rule map_butlast [symmetric])
  also have "butlast [0..<Suc k] = [0..<k]" by simp
  finally show ?thesis .
qed

lemma hsv_sector:
  assumes "0 \<le> h" and "h < 1"
  obtains
    (s0) f where "0 \<le> f" "f < 1" "h = f / 6" "hsv_to_rgb h 1 1 = (1, f, 0)"
  | (s1) f where "0 \<le> f" "f < 1" "h = (1 + f) / 6" "hsv_to_rgb h 1 1 = (1 - f, 1, 0)"
  | (s2) f where "0 \<le> f" "f < 1" "h = (2 + f) / 6" "hsv_to_rgb h 1 1 = (0, 1, f)"
  | (s3) f where "0 \<le> f" "f < 1" "h = (3 + f) / 6" "hsv_to_rgb h 1 1 = (0, 1 - f, 1)"
  | (s4) f where "0 \<le> f" "f < 1" "h = (4 + f) / 6" "hsv_to_rgb h 1 1 = (f, 0, 1)"
  | (s5) f where "0 \<le> f" "f < 1" "h = (5 + f) / 6" "hsv_to_rgb h 1 1 = (1, 0, 1 - f)"
proof -
  define i where "i = \<lfloor>h * 6\<rfloor>"
  define f where "f = h * 6 - real_of_int i"
  have f: "0 \<le> f" "f < 1" unfolding f_def i_def by linarith+
  have i: "0 \<le> i" "i < 6" unfolding i_def using assms by (simp_all add: floor_less_iff)
  have h: "h = (real_of_int i + f) / 6" unfolding f_def by simp
  have pi: "py_int (h * 6) = i" using assms by (simp add: py_int_def i_def)
  from i consider "i = 0" | "i = 1" | "i = 2" | "i = 3" | "i = 4" | "i = 5" by linarith
  then show thesis
  proof cases
    case 1
    have "hsv_to_rgb h 1 1 = (1, f, 0)"
      using pi by (simp add: hsv_to_rgb_def Let_def f_def 1)
    with f h 1 show thesis by (intro s0 [of f]) simp_all
  next
    case 2
    have "hsv_to_rgb h 1 1 = (1 - f, 1, 0)"
      using pi by (simp add: hsv_to_rgb_def Let_def f_def 2)
    with f h 2 show thesis by (intro s1 [of f]) simp_all
  next
    case 3
    have "hsv_to_rgb h 1 1 = (0, 1, f)"
      using pi by (simp add: hsv_to_rgb_def Let_def f_def 3)
    with f h 3 show thesis by (intro s2 [of f]) simp_all
  next
    case 4
    have "hsv_to_rgb h 1 1 = (0, 1 - f, 1)"
      using pi by (simp add: hsv_to_rgb_def Let_def f_def 4)
    with f h 4 show thesis by (intro s3 [of f]) simp_all
  next
    case 5
    have "hsv_to_rgb h 1 1 = (f, 0, 1)"
      using pi by (simp add: hsv_to_rgb_def Let_def f_def 5)
    with f h 5 show thesis by (intro s4 [of f]) simp_all
  next
    case 6
    have "hsv_to_rgb h 1 1 = (1, 0, 1 - f)"
      using pi by (simp add: hsv_to_rgb_def Let_def f_def 6)
    with f h 6 show thesis by (intro s5 [of f]) simp_all
  qed
qed

lemma hsv_to_rgb_inj:
  assumes "0 \<le> h" "h < 1" "0 \<le> h'" "h' < 1"
    and eq: "hsv_to_rgb h 1 1 = hsv_to_rgb h' 1 1"
  shows "h = h'"
  using assms(1,2)
proof (cases h rule: hsv_sector)
  case (s0 f)
  from assms(3,4) show ?thesis
    by (cases h' rule: hsv_sector) (use s0 eq in auto)
next
  case (s1 f)
  from assms(3,4) show ?thesis
    by (cases h' rule: hsv_sector) (use s1 eq in auto)
next
  case (s2 f)
  from assms(3,4) show ?thesis
    by (cases h' rule: hsv_sector) (use s2 eq in auto)
next
  case (s3 f)
  from assms(3,4) show ?thesis
    by (cases h' rule: hsv_sector) (use s3 eq in auto)
next
  case (s4 f)
  from assms(3,4) show ?thesis
    by (cases h' rule: hsv_sector) (use s4 eq in auto)
next
  case (s5 f)
  from assms(3,4) show ?thesis
    by (cases h' rule: hsv_sector) (use s5 eq in auto)
qed

lemma hues_of_range: "h \<in> set (hues_of k) \<Longrightarrow> 0 \<le> h \<and> h < 1"
  by (auto simp: hues_of_eq)

lemma hues_of_distinct: "distinct (hues_of k)"
proof -
  have "inj_on (\<lambda>i. real i / real k) (set [0..<k])"
    by (rule inj_onI) auto
  then show ?thesis
    by (simp add: hues_of_eq distinct_map)
qed

lemma hue_colours_distinct: "distinct (map (\<lambda>hue. hsv_to_rgb hue 1 1) (hues_of k))"
proof -
  have "inj_on (\<lambda>hue. hsv_to_rgb hue 1 1) (set (hues_of k))"
  proof (rule inj_onI)
    fix h h'
    assume "h \<in> set (hues_of k)" "h' \<in> set (hues_of k)"
      and "hsv_to_rgb h 1 1 = hsv_to_rgb h' 1 1"
    then show "h = h'"
      using hues_of_range [of h k] hues_of_range [of h' k] by (intro hsv_to_rgb_inj) simp_all
  qed
  with hues_of_distinct show ?thesis
    by (simp add: distinct_map)
qed

lemma length_hues_of: "length (hues_of k) = k"
  by (simp add: hues_of_eq)

lemma length_cell_colours: "length (cell_colours rnd k) = k"
  by (simp add: cell_colours_def length_shuffle length_hues_of)

lemma shuffle_from_nth_above:
  "i < n \<Longrightarrow> shuffle_from rnd i xs ! n = xs ! n"
proof (induction i arbitrary: xs)
  case 0
  show ?case by simp
next
  case (Suc i)
  define j where "j = rnd (Suc i) mod (Suc i + 1)"
  have j: "j < Suc i + 1" unfolding j_def by (rule mod_less_divisor) simp
  have "shuffle_from rnd (Suc i) xs ! n = shuffle_from rnd i (xs[Suc i := xs ! j, j := xs ! Suc i]) ! n"
    by (simp add: Let_def j_def)
  also have "\<dots> = (xs[Suc i := xs ! j, j := xs ! Suc i]) ! n"
    using Suc.prems by (intro Suc.IH) simp
  also have "\<dots> = xs ! n"
    using Suc.prems j by simp
  finally show ?case .
qed

lemma shuffle_from_cong:
  "(\<And>k. 0 < k \<Longrightarrow> k \<le> i \<Longrightarrow> rnd k = rnd' k) \<Longrightarrow>
   shuffle_from rnd i xs = shuffle_from rnd' i xs"
proof (induction i arbitrary: xs)
  case 0
  show ?case by simp
next
  case (Suc i)
  have top: "rnd (Suc i) = rnd' (Suc i)" using Suc.prems [of "Suc i"] by simp
  define j where "j = rnd' (Suc i) mod (Suc i + 1)"
  have "shuffle_from rnd i (xs[Suc i := xs ! j, j := xs ! Suc i]) =
      shuffle_from rnd' i (xs[Suc i := xs ! j, j := xs ! Suc i])"
    by (rule Suc.IH) (simp add: Suc.prems)
  then show ?case by (simp add: Let_def top j_def)
qed

lemma shuffle_from_onto:
  "mset xs = mset ys \<Longrightarrow> drop (Suc i) xs = drop (Suc i) ys \<Longrightarrow> i < length xs \<Longrightarrow>
   \<exists>rnd. shuffle_from rnd i xs = ys"
proof (induction i arbitrary: xs)
  case 0
  have len: "length ys = length xs" using mset_eq_length [OF "0.prems"(1)] by simp
  obtain x xr where xs: "xs = x # xr" using "0.prems"(3) by (cases xs) auto
  obtain y yr where ys: "ys = y # yr" using len xs by (cases ys) auto
  from "0.prems"(2) xs ys have "xr = yr" by simp
  with "0.prems"(1) xs ys have "xs = ys" by simp
  then show ?case by simp
next
  case (Suc i)
  have len: "length ys = length xs" using mset_eq_length [OF Suc.prems(1)] by simp
  have split_xs: "xs = take (Suc (Suc i)) xs @ drop (Suc (Suc i)) xs" by simp
  have split_ys: "ys = take (Suc (Suc i)) ys @ drop (Suc (Suc i)) ys" by simp
  have "mset (take (Suc (Suc i)) xs) + mset (drop (Suc (Suc i)) xs) =
        mset (take (Suc (Suc i)) ys) + mset (drop (Suc (Suc i)) ys)"
    using Suc.prems(1) by (metis split_xs split_ys mset_append)
  then have heads: "mset (take (Suc (Suc i)) xs) = mset (take (Suc (Suc i)) ys)"
    using Suc.prems(2) by simp
  have "ys ! Suc i \<in> set (take (Suc (Suc i)) ys)"
    using Suc.prems(3) len by (auto simp: in_set_conv_nth intro!: exI [of _ "Suc i"])
  then have "ys ! Suc i \<in> set (take (Suc (Suc i)) xs)"
    using heads by (metis set_mset_mset)
  then obtain j where j: "j < Suc (Suc i)" "j < length xs" "xs ! j = ys ! Suc i"
    by (auto simp: in_set_conv_nth)
  let ?xs' = "xs[Suc i := xs ! j, j := xs ! Suc i]"
  have m: "mset ?xs' = mset ys"
    using mset_swap [OF j(2) Suc.prems(3)] Suc.prems(1) by simp
  have at: "?xs' ! Suc i = ys ! Suc i"
    using j Suc.prems(3) by (cases "j = Suc i") simp_all
  have "drop (Suc i) ?xs' = ?xs' ! Suc i # drop (Suc (Suc i)) ?xs'"
    using Suc.prems(3) by (simp add: Cons_nth_drop_Suc)
  also have "drop (Suc (Suc i)) ?xs' = drop (Suc (Suc i)) xs"
    using j(1) by (simp add: drop_update_cancel)
  also have "?xs' ! Suc i # drop (Suc (Suc i)) xs = ys ! Suc i # drop (Suc (Suc i)) ys"
    using at Suc.prems(2) by simp
  also have "\<dots> = drop (Suc i) ys"
    using Suc.prems(3) len by (simp add: Cons_nth_drop_Suc)
  finally have d: "drop (Suc i) ?xs' = drop (Suc i) ys" .
  have "i < length ?xs'" using Suc.prems(3) by simp
  from Suc.IH [OF m d this] obtain rnd where rnd: "shuffle_from rnd i ?xs' = ys" by blast
  define rnd' where "rnd' = rnd(Suc i := j)"
  have "rnd' (Suc i) mod (Suc i + 1) = j" using j(1) by (simp add: rnd'_def)
  then have "shuffle_from rnd' (Suc i) xs = shuffle_from rnd' i ?xs'"
    by (simp add: Let_def)
  also have "\<dots> = shuffle_from rnd i ?xs'"
    by (rule shuffle_from_cong) (simp add: rnd'_def)
  finally show ?case using rnd by blast
qed

lemma shuffle_onto: "mset ys = mset xs \<Longrightarrow> \<exists>rnd. shuffle rnd xs = ys"
proof (cases xs)
  case Nil
  assume "mset ys = mset xs"
  with Nil show ?thesis by (simp add: shuffle_def)
next
  case (Cons x xr)
  assume m: "mset ys = mset xs"
  have len: "length ys = length xs" using mset_eq_length [OF m] .
  have "drop (Suc (length xs - 1)) xs = drop (Suc (length xs - 1)) ys"
    using Cons len by simp
  moreover have "length xs - 1 < length xs" using Cons by simp
  ultimately show ?thesis
    unfolding shuffle_def using shuffle_from_onto [of xs ys "length xs - 1"] m by simp
qed

lemma shuffle_last:
  "xs \<noteq> [] \<Longrightarrow> shuffle rnd xs ! (length xs - 1) = xs ! (rnd (length xs - 1) mod length xs)"
proof (cases "length xs - 1")
  case 0
  assume "xs \<noteq> []"
  with 0 have "length xs = 1" by (cases xs) auto
  then show ?thesis by (simp add: shuffle_def)
next
  case (Suc i)
  assume "xs \<noteq> []"
  define j where "j = rnd (Suc i) mod (Suc i + 1)"
  have j: "j < Suc i + 1" unfolding j_def by (rule mod_less_divisor) simp
  have len: "length xs = Suc i + 1" using Suc by simp
  have "shuffle rnd xs = shuffle_from rnd (Suc i) xs"
    by (simp only: shuffle_def Suc)
  then have "shuffle rnd xs ! (length xs - 1) =
      shuffle_from rnd i (xs[Suc i := xs ! j, j := xs ! Suc i]) ! Suc i"
    by (simp only: Suc shuffle_from.simps Let_def j_def)
  also have "\<dots> = (xs[Suc i := xs ! j, j := xs ! Suc i]) ! Suc i"
    by (rule shuffle_from_nth_above) simp
  also have "\<dots> = xs ! j"
    using j len by (cases "j = Suc i") simp_all
  finally show ?thesis by (simp add: j_def Suc len)
qed

lemma hues_of_three: "hues_of 3 = [0, 1 / 3, 2 / 3]"
  by (simp add: hues_of_eq numeral_3_eq_3 upt_rec)

lemma unshuffled_three:
  "map (\<lambda>hue. hsv_to_rgb hue 1 1) (hues_of 3) = [(1, 0, 0), (0, 1, 0), (0, 0, 1)]"
  by (simp add: hues_of_three hsv_to_rgb_def py_int_def Let_def)

lemma shuffled_three: "cell_colours (\<lambda>i. 0) 3 = [(0, 1, 0), (0, 0, 1), (1, 0, 0)]"
  by (simp add: cell_colours_def unshuffled_three shuffle_def numeral_2_eq_2)

text \<open>
  Claim C7. For every number \<open>k\<close> of curves, \<open>plot_cell\<close>'s colour assignment has exactly
  \<open>k\<close> colours, all distinct. The hues are the \<open>k + 1\<close> evenly spaced samples
  \<open>0, 1/k, ..., 1\<close> of \<open>linspace\<close> over the closed interval without the last one, each is
  converted by \<open>hsv_to_rgb\<close> at full saturation and value, and the shuffle then permutes
  the order of those colours and nothing else: as a multiset the assignment is the
  converted hues, whatever the random source draws. The order is decided by the random
  source: the colour that ends up last is the one at the position that the first draw of
  the shuffle names, and every arrangement of the converted hues is the assignment for
  some random source.
\<close>

theorem cell_colours_distinct:
  "length (cell_colours rnd k) = k
   \<and> distinct (cell_colours rnd k)
   \<and> linspace 0 1 (k + 1) = map (\<lambda>i. real i / real k) [0..<k + 1]
   \<and> hues_of k = butlast (linspace 0 1 (k + 1))
   \<and> hues_of k = map (\<lambda>i. real i / real k) [0..<k]
   \<and> mset (cell_colours rnd k) = mset (map (\<lambda>hue. hsv_to_rgb hue 1 1) (hues_of k))
   \<and> (0 < k \<longrightarrow>
        cell_colours rnd k ! (k - 1) =
          map (\<lambda>hue. hsv_to_rgb hue 1 1) (hues_of k) ! (rnd (k - 1) mod k))
   \<and> (mset ys = mset (map (\<lambda>hue. hsv_to_rgb hue 1 1) (hues_of k)) \<longrightarrow>
        (\<exists>rnd'. cell_colours rnd' k = ys))"
proof -
  have m: "mset (cell_colours rnd k) = mset (map (\<lambda>hue. hsv_to_rgb hue 1 1) (hues_of k))"
    by (simp add: cell_colours_def mset_shuffle)
  have d: "distinct (cell_colours rnd k)"
    using mset_eq_imp_distinct_iff [OF m] hue_colours_distinct by simp
  have l: "linspace 0 1 (k + 1) = map (\<lambda>i. real i / real k) [0..<k + 1]"
    by (simp add: linspace_def)
  have h: "hues_of k = butlast (linspace 0 1 (k + 1))"
    by (simp only: hues_of_def)
  have last: "0 < k \<longrightarrow>
        cell_colours rnd k ! (k - 1) =
          map (\<lambda>hue. hsv_to_rgb hue 1 1) (hues_of k) ! (rnd (k - 1) mod k)"
  proof
    assume "0 < k"
    then have ne: "map (\<lambda>hue. hsv_to_rgb hue 1 1) (hues_of k) \<noteq> []"
      using length_hues_of [of k] by auto
    from shuffle_last [OF ne, of rnd]
    show "cell_colours rnd k ! (k - 1) =
          map (\<lambda>hue. hsv_to_rgb hue 1 1) (hues_of k) ! (rnd (k - 1) mod k)"
      by (simp add: cell_colours_def length_hues_of)
  qed
  have onto: "mset ys = mset (map (\<lambda>hue. hsv_to_rgb hue 1 1) (hues_of k)) \<longrightarrow>
        (\<exists>rnd'. cell_colours rnd' k = ys)"
    unfolding cell_colours_def by (rule impI) (rule shuffle_onto)
  from length_cell_colours d l h hues_of_eq m last onto show ?thesis
    by (intro conjI)
qed

theorem cell_colours_distinct_witness:
  "(0::nat) < 3
   \<and> map (\<lambda>hue. hsv_to_rgb hue 1 1) (hues_of 3) = [(1, 0, 0), (0, 1, 0), (0, 0, 1)]
   \<and> cell_colours (\<lambda>i. 0) 3 = [(0, 1, 0), (0, 0, 1), (1, 0, 0)]
   \<and> cell_colours (\<lambda>i. 0) 3 \<noteq> map (\<lambda>hue. hsv_to_rgb hue 1 1) (hues_of 3)
   \<and> cell_colours (\<lambda>i. 0) 3 ! 2 = map (\<lambda>hue. hsv_to_rgb hue 1 1) (hues_of 3) ! 0
   \<and> cell_colours (\<lambda>i. 1) 3 ! 2 = map (\<lambda>hue. hsv_to_rgb hue 1 1) (hues_of 3) ! 1
   \<and> mset [(0, 0, 1), (1, 0, 0), (0, 1, 0)] = mset (map (\<lambda>hue. hsv_to_rgb hue 1 1) (hues_of 3))
   \<and> (\<exists>rnd. cell_colours rnd 3 = [(0, 0, 1), (1, 0, 0), (0, 1, 0)])"
proof -
  note zero = cell_colours_distinct [of "\<lambda>i. 0" 3 "[(0, 0, 1), (1, 0, 0), (0, 1, 0)]"]
  note one = cell_colours_distinct [of "\<lambda>i. 1" 3 "[(0, 0, 1), (1, 0, 0), (0, 1, 0)]"]
  have k: "(0::nat) < 3" by simp
  have e: "mset [(0, 0, 1), (1, 0, 0), (0, 1, 0)] =
      mset (map (\<lambda>hue. hsv_to_rgb hue 1 1) (hues_of 3))"
    by (simp add: unshuffled_three)
  from zero k have "cell_colours (\<lambda>i. 0) 3 ! (3 - 1) =
      map (\<lambda>hue. hsv_to_rgb hue 1 1) (hues_of 3) ! (0 mod 3)"
    by blast
  then have l0: "cell_colours (\<lambda>i. 0) 3 ! 2 =
      map (\<lambda>hue. hsv_to_rgb hue 1 1) (hues_of 3) ! 0"
    by simp
  from one k have "cell_colours (\<lambda>i. 1) 3 ! (3 - 1) =
      map (\<lambda>hue. hsv_to_rgb hue 1 1) (hues_of 3) ! (1 mod 3)"
    by blast
  then have l1: "cell_colours (\<lambda>i. 1) 3 ! 2 =
      map (\<lambda>hue. hsv_to_rgb hue 1 1) (hues_of 3) ! 1"
    by simp
  from zero e have ex: "\<exists>rnd. cell_colours rnd 3 = [(0, 0, 1), (1, 0, 0), (0, 1, 0)]"
    by blast
  have ne: "cell_colours (\<lambda>i. 0) 3 \<noteq> map (\<lambda>hue. hsv_to_rgb hue 1 1) (hues_of 3)"
    by (simp add: unshuffled_three shuffled_three)
  from k unshuffled_three shuffled_three ne l0 l1 e ex show ?thesis
    by (intro conjI)
qed

subsection \<open>Boundary normalisation\<close>

text \<open>
  Claim C3. The boundary normalisation of \<open>plot_cell\<close> turns a scalar \<open>s\<close> into
  \<open>(0, s, 0, s, 0, s)\<close>, a 3-tuple \<open>(a, b, c)\<close> into \<open>(0, a, 0, b, 0, c)\<close>, and leaves a
  6-tuple as it is.
\<close>

theorem normalise_boundary_cases:
  "normalise_boundary (Scalar s) = [0, s, 0, s, 0, s]
   \<and> normalise_boundary (Extents [a, b, c]) = [0, a, 0, b, 0, c]
   \<and> normalise_boundary (Extents [x0, x1, y0, y1, z0, z1]) = [x0, x1, y0, y1, z0, z1]"
  by (simp add: normalise_boundary_def ensure_shape_tuple_def)

text \<open>
  Claim C9. With a boundary given, \<open>plot_cell\<close> is expected to draw a box over the six
  extents. On an empty scene with the scalar boundary 1, in an environment where everything
  imports, the function imports mayavi, clears the scene, computes the extents
  \<open>(0, 1, 0, 1, 0, 1)\<close> and ends: no call draws the box.
\<close>

theorem plot_cell_boundary_not_drawn:
  "plot_cell all_ok (\<lambda>i. 0) [] (Some (Scalar 1)) True []
     = ([Import ''mayavi.mlab'', MayClf], Inr (Some [0, 1, 0, 1, 0, 1]))"
  by (simp add: plot_cell_def all_ok_def run_defs cell_calls_def normalise_boundary_def
      ensure_shape_tuple_def)

subsection \<open>The vispy adapter\<close>

lemma amax_Max: "xs \<noteq> [] \<Longrightarrow> amax xs = Inr (Max (set xs))"
proof (cases xs)
  case Nil
  assume "xs \<noteq> []"
  with Nil show ?thesis by simp
next
  case (Cons x r)
  then show ?thesis
    using Max.set_eq_fold [of x r] by (simp add: amax_def)
qed

lemma amin_Min: "xs \<noteq> [] \<Longrightarrow> amin xs = Inr (Min (set xs))"
proof (cases xs)
  case Nil
  assume "xs \<noteq> []"
  with Nil show ?thesis by simp
next
  case (Cons x r)
  then show ?thesis
    using Min.set_eq_fold [of x r] by (simp add: amin_def)
qed

lemma amax_three: "amax [a, b, c] = Inr (max (max a b) c)"
  by (simp add: amax_def max.commute)

lemma max_coordinate_Max:
  assumes "points \<noteq> []"
  shows "max_coordinate points =
     Inr (Max (set (xs_of points) \<union> set (ys_of points) \<union> set (zs_of points)))"
proof -
  have ne: "xs_of points \<noteq> []" "ys_of points \<noteq> []" "zs_of points \<noteq> []"
    using assms by (simp_all add: xs_of_def ys_of_def zs_of_def)
  have "Max (set (xs_of points) \<union> set (ys_of points) \<union> set (zs_of points)) =
      max (max (Max (set (xs_of points))) (Max (set (ys_of points)))) (Max (set (zs_of points)))"
    using ne by (simp add: Max_Un)
  then show ?thesis
    by (simp only: max_coordinate_def amax_Max [OF ne(1)] amax_Max [OF ne(2)]
        amax_Max [OF ne(3)] amax_three sum.case)
qed

text \<open>The calls of the adapter on a non-empty point sequence, when vispy imports: the tube
  is built from the points as given, the camera is set next, and the translation by minus
  the mean of the points comes last.\<close>

lemma plot_line_vispy_run:
  assumes "points \<noteq> []" and "importing env ''vispy'' = None"
  shows "plot_line_vispy env points kwargs =
     ([Import ''vispy'', SceneCanvas, AddView,
       Tube points (map (\<lambda>c. hsv_to_rgb c 1 1) (linspace 0 1 (length points))),
       ViewAdd,
       SetCamera (1.5 * Max (set (xs_of points) \<union> set (ys_of points) \<union> set (zs_of points))),
       AffineTransform,
       Translate (- (sum_list (xs_of points) / real (length points)),
                  - (sum_list (ys_of points) / real (length points)),
                  - (sum_list (zs_of points) / real (length points))),
       CanvasShow], Inr ())"
  using assms
  by (simp add: plot_line_vispy_def run_defs Let_def max_coordinate_Max average0_def
      xs_of_def ys_of_def zs_of_def)

text \<open>
  Claim C8. The vispy adapter is expected to recentre the tube by minus the centroid of the
  points, after constructing it, and to set the camera distance to 1.5 times the largest
  absolute coordinate value of the points as given. On two points with negative
  coordinates the adapter does recentre by minus the centroid, but it takes the largest
  coordinate without the absolute value: the distance it passes to the camera is the
  negative number \<open>-3/2\<close>, where 1.5 times the largest absolute coordinate is \<open>15/2\<close>.
\<close>

theorem plot_line_vispy_negative_distance:
  "plot_line_vispy all_ok below_origin [] =
     ([Import ''vispy'', SceneCanvas, AddView,
       Tube below_origin [(1, 0, 0), (1, 0, 0)], ViewAdd, SetCamera (- 3 / 2), AffineTransform,
       Translate (2, 3, 4), CanvasShow], Inr ())
   \<and> 1.5 * spec_max_abs_coordinate below_origin = 15 / 2
   \<and> SetCamera (1.5 * spec_max_abs_coordinate below_origin)
       \<notin> set (fst (plot_line_vispy all_ok below_origin []))"
  by (simp add: plot_line_vispy_def all_ok_def below_origin_def spec_max_abs_coordinate_def
      run_defs max_coordinate_def amax_def xs_of_def ys_of_def zs_of_def Let_def average0_def
      linspace_def hsv_to_rgb_def py_int_def)

subsection \<open>plot_projection\<close>

lemma and_then_lift_Inr: "and_then (lift (Inr x)) f = f x"
  by (cases "f x") (simp add: run_defs)

lemma plot_projection_run:
  assumes "points \<noteq> []" and "importing env ''matplotlib.pyplot'' = None"
    and "fig_ax \<noteq> None \<or> figure env = None"
  shows "plot_projection env points crossings mark_start fig_ax show =
    (Import ''matplotlib.pyplot'' # (if fig_ax = None then [PltSubplots] else []) @
     [AxPlot (map fst points) (map (fst \<circ> snd) points), SetXticks [], SetYticks [],
      SetXlim (Min (set (map fst points))
                 - (Max (set (map fst points)) - Min (set (map fst points))) / 10)
              (Max (set (map fst points))
                 + (Max (set (map fst points)) - Min (set (map fst points))) / 10),
      SetYlim (Min (set (map (fst \<circ> snd) points))
                 - (Max (set (map (fst \<circ> snd) points)) - Min (set (map (fst \<circ> snd) points))) / 10)
              (Max (set (map (fst \<circ> snd) points))
                 + (Max (set (map (fst \<circ> snd) points)) - Min (set (map (fst \<circ> snd) points))) / 10)] @
     (if mark_start then [AxPlotStart (fst (hd points)) (fst (snd (hd points)))] else []) @
     (case crossings of
        None \<Rightarrow> []
      | Some cs \<Rightarrow> if cs = [] then [] else [AxPlotCrossings (map fst cs) (map snd cs)]) @
     (if show then [FigShow] else []), Inr ())"
proof -
  have ne: "map fst points \<noteq> []" "map (fst \<circ> snd) points \<noteq> []"
    using assms(1) by simp_all
  obtain x y r ps where p: "points = (x, y, r) # ps"
    using assms(1) by (cases points) auto
  have start: "(case points of [] \<Rightarrow> raise (OtherError ''IndexError'')
                 | (x, y, r) # ps \<Rightarrow> emit (AxPlotStart x y)) =
               emit (AxPlotStart (fst (hd points)) (fst (snd (hd points))))"
    by (simp add: p)
  have fig: "(if fig_ax \<noteq> None then ok () else attempt (figure env) PltSubplots) =
      (if fig_ax = None then emit PltSubplots else ok ())"
    using assms(3) by (auto simp: attempt_def emit_def)
  show ?thesis
    unfolding plot_projection_def start fig
    by (cases crossings)
      (simp_all add: import_module_def assms(2) and_then_attempt and_then_probe
        and_then_lift_Inr amin_Min [OF ne(1)] amin_Min [OF ne(2)] amax_Max [OF ne(1)]
        amax_Max [OF ne(2)] Let_def after_def emit_def ok_def crossings_guard_def py_and_def
        del: set_map)
qed

text \<open>
  Claim C5. For a non-empty point array, with matplotlib importable and an axes at hand,
  \<open>plot_projection\<close> sets the limits exactly once per axis: on each of the first two
  coordinates, from the minimum minus a tenth of the range to the maximum plus a tenth of
  the range, the minimum and maximum being taken over all points. When the x values range
  over \<open>[0, 10]\<close> the x limits are \<open>(-1, 11)\<close>, and on an axis whose range is zero the
  limits are the single value, without padding.
\<close>

theorem plot_projection_limits:
  assumes "points \<noteq> []" and "importing env ''matplotlib.pyplot'' = None"
    and "fig_ax \<noteq> None \<or> figure env = None"
  shows "filter is_limit (fst (plot_projection env points crossings mark_start fig_ax show)) =
      [SetXlim (Min (set (map fst points))
                 - (Max (set (map fst points)) - Min (set (map fst points))) / 10)
               (Max (set (map fst points))
                 + (Max (set (map fst points)) - Min (set (map fst points))) / 10),
       SetYlim (Min (set (map (fst \<circ> snd) points))
                 - (Max (set (map (fst \<circ> snd) points)) - Min (set (map (fst \<circ> snd) points))) / 10)
               (Max (set (map (fst \<circ> snd) points))
                 + (Max (set (map (fst \<circ> snd) points)) - Min (set (map (fst \<circ> snd) points))) / 10)]
    \<and> (Min (set (map fst points)) = 0 \<and> Max (set (map fst points)) = 10 \<longrightarrow>
         SetXlim (- 1) 11
           \<in> set (fst (plot_projection env points crossings mark_start fig_ax show)))
    \<and> (Min (set (map fst points)) = Max (set (map fst points)) \<longrightarrow>
         SetXlim (Min (set (map fst points))) (Max (set (map fst points)))
           \<in> set (fst (plot_projection env points crossings mark_start fig_ax show)))
    \<and> (Min (set (map (fst \<circ> snd) points)) = Max (set (map (fst \<circ> snd) points)) \<longrightarrow>
         SetYlim (Min (set (map (fst \<circ> snd) points))) (Max (set (map (fst \<circ> snd) points)))
           \<in> set (fst (plot_projection env points crossings mark_start fig_ax show)))"
  unfolding plot_projection_run [OF assms]
  by (cases crossings) (simp_all del: set_map)

theorem plot_projection_limits_witness:
  "flat_line \<noteq> [] \<and> importing all_ok ''matplotlib.pyplot'' = None \<and> figure all_ok = None
   \<and> Min (set (map fst flat_line)) = 0 \<and> Max (set (map fst flat_line)) = 10
   \<and> Min (set (map (fst \<circ> snd) flat_line)) = Max (set (map (fst \<circ> snd) flat_line))
   \<and> filter is_limit (fst (plot_projection all_ok flat_line None False None True)) =
       [SetXlim (- 1) 11, SetYlim 5 5]
   \<and> single_point \<noteq> []
   \<and> Min (set (map fst single_point)) = Max (set (map fst single_point))
   \<and> filter is_limit (fst (plot_projection all_ok single_point None False None True)) =
       [SetXlim 3 3, SetYlim 5 5]"
proof -
  have h1: "flat_line \<noteq> []" "single_point \<noteq> []"
    by (simp_all add: flat_line_def single_point_def)
  have h2: "importing all_ok ''matplotlib.pyplot'' = None" by (simp add: all_ok_def)
  have h3: "None \<noteq> (None :: unit option) \<or> figure all_ok = None" by (simp add: all_ok_def)
  from plot_projection_limits [OF h1(1) h2 h3, of None False True]
    plot_projection_limits [OF h1(2) h2 h3, of None False True] h1 h2 h3
  show ?thesis
    by (simp add: flat_line_def single_point_def)
qed

text \<open>
  Claim C6. For a non-empty point array, with matplotlib importable and an axes at hand,
  \<open>plot_projection\<close> with \<open>crossings=[]\<close> does not raise and draws no crossing marker; it
  does exactly what it does with \<open>crossings=None\<close>. The two are told apart inside the guard
  \<open>crossings is not None and len(crossings)\<close>: for \<open>None\<close> the first test fails and the guard
  is \<open>False\<close>, for the empty list the first test passes and the guard is the length
  \<open>0\<close>. The axis limits are set from the curve, once per axis, whatever the crossings are,
  and a non-empty list gives one marker call with the crossings' coordinates.
\<close>

theorem plot_projection_empty_crossings:
  assumes "points \<noteq> []" and "importing env ''matplotlib.pyplot'' = None"
    and "fig_ax \<noteq> None \<or> figure env = None"
  shows "succeeded (plot_projection env points (Some []) mark_start fig_ax show)
    \<and> filter is_crossing_marker
          (fst (plot_projection env points (Some []) mark_start fig_ax show)) = []
    \<and> plot_projection env points (Some []) mark_start fig_ax show =
        plot_projection env points None mark_start fig_ax show
    \<and> crossings_guard None = PBool False
    \<and> crossings_guard (Some []) = PInt 0
    \<and> filter is_limit (fst (plot_projection env points (Some []) mark_start fig_ax show)) =
        filter is_limit (fst (plot_projection env points (Some (c # cs)) mark_start fig_ax show))
    \<and> length (filter is_limit
          (fst (plot_projection env points (Some []) mark_start fig_ax show))) = 2
    \<and> filter is_crossing_marker
          (fst (plot_projection env points (Some (c # cs)) mark_start fig_ax show)) =
        [AxPlotCrossings (map fst (c # cs)) (map snd (c # cs))]"
  unfolding plot_projection_run [OF assms]
  by (simp add: succeeded_def crossings_guard_def py_and_def del: set_map)

theorem plot_projection_empty_crossings_witness:
  "flat_line \<noteq> [] \<and> importing all_ok ''matplotlib.pyplot'' = None \<and> figure all_ok = None
   \<and> plot_projection all_ok flat_line (Some []) False None True =
       ([Import ''matplotlib.pyplot'', PltSubplots, AxPlot [0, 10, 4] [5, 5, 5],
         SetXticks [], SetYticks [], SetXlim (- 1) 11, SetYlim 5 5, FigShow], Inr ())
   \<and> plot_projection all_ok flat_line None False None True =
       ([Import ''matplotlib.pyplot'', PltSubplots, AxPlot [0, 10, 4] [5, 5, 5],
         SetXticks [], SetYticks [], SetXlim (- 1) 11, SetYlim 5 5, FigShow], Inr ())"
proof -
  have h1: "flat_line \<noteq> []" by (simp add: flat_line_def)
  have h2: "importing all_ok ''matplotlib.pyplot'' = None" by (simp add: all_ok_def)
  have h3: "None \<noteq> (None :: unit option) \<or> figure all_ok = None" by (simp add: all_ok_def)
  have run: "plot_projection all_ok flat_line None False None True =
       ([Import ''matplotlib.pyplot'', PltSubplots, AxPlot [0, 10, 4] [5, 5, 5],
         SetXticks [], SetYticks [], SetXlim (- 1) 11, SetYlim 5 5, FigShow], Inr ())"
    by (simp add: plot_projection_def all_ok_def flat_line_def run_defs amin_def amax_def
        crossings_guard_def py_and_def)
  from plot_projection_empty_crossings [OF h1 h2 h3, of False True] h1 h2 h3 run
  show ?thesis by simp
qed

subsection \<open>plot_cell\<close>

lemma and_then_no_clear:
  assumes "MayClf \<notin> set (fst m)" and "\<And>x. MayClf \<notin> set (fst (f x))"
  shows "MayClf \<notin> set (fst (and_then m f))"
proof (cases m)
  case (Pair t r)
  show ?thesis
  proof (cases r)
    case (Inl e)
    with Pair assms(1) show ?thesis by (simp add: and_then_def)
  next
    case (Inr x)
    with Pair assms(1) assms(2) [of x] show ?thesis
      by (cases "f x") (simp add: and_then_def)
  qed
qed

lemma probe_matplotlib_no_clear: "MayClf \<notin> set (fst (probe_matplotlib env))"
  using probe_matplotlib_events [of env] by auto

lemma mayavi_adapter_no_clear: "MayClf \<notin> set (fst (mayavi_adapter env points False kwargs))"
  by (cases "importing env ''mayavi.mlab''")
    (simp_all add: mayavi_adapter_def plot_line_mayavi_def run_defs Let_def)

lemma matplotlib_adapter_no_clear: "MayClf \<notin> set (fst (plot_line_matplotlib env points kwargs))"
  using matplotlib_adapter_events [of MayClf env points kwargs] by auto

lemma vispy_adapter_no_clear: "MayClf \<notin> set (fst (plot_line_vispy env points kwargs))"
  unfolding plot_line_vispy_def Let_def
  by (intro and_then_no_clear) (simp_all add: import_module_def attempt_def emit_def lift_def)

lemma plot_line_no_clear: "MayClf \<notin> set (fst (plot_line env points mode False kwargs))"
  unfolding plot_line_def
  by (intro and_then_no_clear)
    (simp_all add: probe_mayavi_eq probe_vispy_eq probe_matplotlib_no_clear ok_def raise_def
      mayavi_adapter_no_clear matplotlib_adapter_no_clear vispy_adapter_no_clear)

lemma invoke_plot_line_no_clear:
  "\<not> lc_clf c \<Longrightarrow> MayClf \<notin> set (fst (invoke_plot_line env c))"
  using plot_line_no_clear by (simp add: invoke_plot_line_def raise_def)

lemma run_calls_no_clear:
  "(\<And>c. c \<in> set cs \<Longrightarrow> \<not> lc_clf c) \<Longrightarrow> MayClf \<notin> set (fst (run_calls env cs))"
proof (induction cs)
  case Nil
  show ?case by (simp add: ok_def)
next
  case (Cons c cs)
  have "MayClf \<notin> set (fst (invoke_plot_line env c))"
    using Cons.prems [of c] by (simp add: invoke_plot_line_no_clear)
  moreover have "MayClf \<notin> set (fst (run_calls env cs))"
    using Cons.IH Cons.prems by simp
  ultimately show ?case
    by (simp add: and_then_no_clear)
qed

lemma cell_calls_clf: "c \<in> set (cell_calls lines colours kwargs) \<Longrightarrow> \<not> lc_clf c"
  by (auto simp: cell_calls_def dest!: set_zip_leftD)

lemma plot_cell_run:
  "importing env ''mayavi.mlab'' = None \<Longrightarrow>
   plot_cell env rnd lines boundary clf kwargs =
     after [Import ''mayavi.mlab'', MayClf]
       (and_then (run_calls env (cell_calls lines (cell_colours rnd (length lines)) kwargs))
          (\<lambda>_. ok (map_option normalise_boundary boundary)))"
  by (simp add: plot_cell_def import_module_def and_then_attempt and_then_emit after_after
      Let_def map_option_case)

lemma fst_and_then_ok: "fst (and_then m (\<lambda>_. ok x)) = fst m"
  by (cases m; cases "snd m") (auto simp: and_then_def ok_def)

lemma list_of_three: "length xs = 3 \<Longrightarrow> xs = [xs ! 0, xs ! 1, xs ! 2]"
  by (auto simp: numeral_3_eq_3 length_Suc_conv)

lemma plot_line_auto_mayavi:
  "importing env ''mayavi.mlab'' = None \<Longrightarrow>
   plot_line env pts (PStr ''auto'') clf kw =
     after [Import ''mayavi.mlab''] (mayavi_adapter env pts clf kw)"
  by (simp add: plot_line_def probe_mayavi_eq and_then_probe and_then_ok after_after)

lemma invoke_plot_line_default:
  "importing env ''mayavi.mlab'' = None \<Longrightarrow>
   invoke_plot_line env \<lparr>lc_points = seg, lc_clf = False, lc_color = col, lc_kwargs = []\<rparr> =
     ([Import ''mayavi.mlab'', Import ''mayavi.mlab'', mayavi_draw seg col], Inr ())"
  by (simp add: invoke_plot_line_def kwarg_def without_def plot_line_auto_mayavi
      mayavi_adapter_def plot_line_mayavi_def import_module_def and_then_attempt and_then_ok
      after_def emit_def mayavi_draw_def)

text \<open>
  Claim C2, as stated, on three curves of two segments each: \<open>plot_cell\<close> makes six calls
  of \<open>plot_line\<close>, and the first of them does not ask for the scene to be cleared.
\<close>

theorem plot_cell_first_call_counterexample:
  "length (cell_calls three_by_two (cell_colours (\<lambda>i. 0) (length three_by_two)) []) = 6
   \<and> \<not> lc_clf (cell_calls three_by_two (cell_colours (\<lambda>i. 0) (length three_by_two)) [] ! 0)"
proof -
  have "length (cell_colours (\<lambda>i. 0) (length three_by_two)) = 3"
    by (simp add: length_cell_colours three_by_two_def)
  then obtain c0 c1 c2 where cs: "cell_colours (\<lambda>i. 0) (length three_by_two) = [c0, c1, c2]"
    using list_of_three by blast
  show ?thesis
    by (simp only: cs) (simp add: three_by_two_def cell_calls_def)
qed

text \<open>
  Claim C2, amended. Given three curves of two segments each, \<open>plot_cell\<close> makes exactly six
  calls of \<open>plot_line\<close>, one per segment in order, the two segments of a curve with the
  colour assigned to that curve, and every one of the six with scene clearing disabled.
  The scene is cleared once by \<open>plot_cell\<close> itself before the first call: with no further
  keyword arguments, when mayavi imports, the calls made are the import, the clear and then,
  for each segment, the probe's import, the adapter's import and the draw.
\<close>

theorem plot_cell_six_calls:
  "map (\<lambda>c. (lc_points c, lc_color c, lc_clf c))
       (cell_calls [[s11, s12], [s21, s22], [s31, s32]] (cell_colours rnd 3) kwargs) =
     [(s11, cell_colours rnd 3 ! 0, False), (s12, cell_colours rnd 3 ! 0, False),
      (s21, cell_colours rnd 3 ! 1, False), (s22, cell_colours rnd 3 ! 1, False),
      (s31, cell_colours rnd 3 ! 2, False), (s32, cell_colours rnd 3 ! 2, False)]
   \<and> (importing env ''mayavi.mlab'' = None \<longrightarrow>
        plot_cell env rnd [[s11, s12], [s21, s22], [s31, s32]] boundary clf [] =
          ([Import ''mayavi.mlab'', MayClf,
            Import ''mayavi.mlab'', Import ''mayavi.mlab'', mayavi_draw s11 (cell_colours rnd 3 ! 0),
            Import ''mayavi.mlab'', Import ''mayavi.mlab'', mayavi_draw s12 (cell_colours rnd 3 ! 0),
            Import ''mayavi.mlab'', Import ''mayavi.mlab'', mayavi_draw s21 (cell_colours rnd 3 ! 1),
            Import ''mayavi.mlab'', Import ''mayavi.mlab'', mayavi_draw s22 (cell_colours rnd 3 ! 1),
            Import ''mayavi.mlab'', Import ''mayavi.mlab'', mayavi_draw s31 (cell_colours rnd 3 ! 2),
            Import ''mayavi.mlab'', Import ''mayavi.mlab'', mayavi_draw s32 (cell_colours rnd 3 ! 2)],
           Inr (map_option normalise_boundary boundary)))"
proof -
  obtain c0 c1 c2 where cs: "cell_colours rnd 3 = [c0, c1, c2]"
    using list_of_three [OF length_cell_colours [of rnd 3]] by blast
  have calls: "cell_calls [[s11, s12], [s21, s22], [s31, s32]] (cell_colours rnd 3) kw =
      [\<lparr>lc_points = s11, lc_clf = False, lc_color = c0, lc_kwargs = kw\<rparr>,
       \<lparr>lc_points = s12, lc_clf = False, lc_color = c0, lc_kwargs = kw\<rparr>,
       \<lparr>lc_points = s21, lc_clf = False, lc_color = c1, lc_kwargs = kw\<rparr>,
       \<lparr>lc_points = s22, lc_clf = False, lc_color = c1, lc_kwargs = kw\<rparr>,
       \<lparr>lc_points = s31, lc_clf = False, lc_color = c2, lc_kwargs = kw\<rparr>,
       \<lparr>lc_points = s32, lc_clf = False, lc_color = c2, lc_kwargs = kw\<rparr>]" for kw
    by (simp add: cell_calls_def cs)
  have first: "map (\<lambda>c. (lc_points c, lc_color c, lc_clf c))
       (cell_calls [[s11, s12], [s21, s22], [s31, s32]] (cell_colours rnd 3) kwargs) =
     [(s11, cell_colours rnd 3 ! 0, False), (s12, cell_colours rnd 3 ! 0, False),
      (s21, cell_colours rnd 3 ! 1, False), (s22, cell_colours rnd 3 ! 1, False),
      (s31, cell_colours rnd 3 ! 2, False), (s32, cell_colours rnd 3 ! 2, False)]"
    by (simp add: calls) (simp add: cs)
  have second: "plot_cell env rnd [[s11, s12], [s21, s22], [s31, s32]] boundary clf [] =
          ([Import ''mayavi.mlab'', MayClf,
            Import ''mayavi.mlab'', Import ''mayavi.mlab'', mayavi_draw s11 (cell_colours rnd 3 ! 0),
            Import ''mayavi.mlab'', Import ''mayavi.mlab'', mayavi_draw s12 (cell_colours rnd 3 ! 0),
            Import ''mayavi.mlab'', Import ''mayavi.mlab'', mayavi_draw s21 (cell_colours rnd 3 ! 1),
            Import ''mayavi.mlab'', Import ''mayavi.mlab'', mayavi_draw s22 (cell_colours rnd 3 ! 1),
            Import ''mayavi.mlab'', Import ''mayavi.mlab'', mayavi_draw s31 (cell_colours rnd 3 ! 2),
            Import ''mayavi.mlab'', Import ''mayavi.mlab'', mayavi_draw s32 (cell_colours rnd 3 ! 2)],
           Inr (map_option normalise_boundary boundary))"
    if a: "importing env ''mayavi.mlab'' = None"
  proof -
    have "plot_cell env rnd [[s11, s12], [s21, s22], [s31, s32]] boundary clf [] =
        after [Import ''mayavi.mlab'', MayClf]
         (and_then (run_calls env
             (cell_calls [[s11, s12], [s21, s22], [s31, s32]] (cell_colours rnd 3) []))
          (\<lambda>_. ok (map_option normalise_boundary boundary)))"
      using plot_cell_run [OF a, of rnd "[[s11, s12], [s21, s22], [s31, s32]]" boundary clf "[]"]
      by (simp add: numeral_3_eq_3)
    also have "\<dots> = ([Import ''mayavi.mlab'', MayClf,
            Import ''mayavi.mlab'', Import ''mayavi.mlab'', mayavi_draw s11 c0,
            Import ''mayavi.mlab'', Import ''mayavi.mlab'', mayavi_draw s12 c0,
            Import ''mayavi.mlab'', Import ''mayavi.mlab'', mayavi_draw s21 c1,
            Import ''mayavi.mlab'', Import ''mayavi.mlab'', mayavi_draw s22 c1,
            Import ''mayavi.mlab'', Import ''mayavi.mlab'', mayavi_draw s31 c2,
            Import ''mayavi.mlab'', Import ''mayavi.mlab'', mayavi_draw s32 c2],
           Inr (map_option normalise_boundary boundary))"
      by (simp only: calls run_calls.simps invoke_plot_line_default [OF a])
        (simp add: and_then_probe and_then_ok after_def ok_def)
    finally show ?thesis by (simp add: cs)
  qed
  from first second show ?thesis by blast
qed

theorem plot_cell_six_calls_witness:
  "importing all_ok ''mayavi.mlab'' = None
   \<and> length (filter (\<lambda>c. c = MayClf)
        (fst (plot_cell all_ok (\<lambda>i. 0)
               [[[(0, 0, 0)], [(1, 0, 0)]], [[(0, 0, 1)], [(1, 0, 1)]], [[(0, 0, 2)], [(1, 0, 2)]]]
               None True []))) = 1
   \<and> hd (fst (plot_cell all_ok (\<lambda>i. 0)
               [[[(0, 0, 0)], [(1, 0, 0)]], [[(0, 0, 1)], [(1, 0, 1)]], [[(0, 0, 2)], [(1, 0, 2)]]]
               None True [])) = Import ''mayavi.mlab''
   \<and> length (fst (plot_cell all_ok (\<lambda>i. 0)
               [[[(0, 0, 0)], [(1, 0, 0)]], [[(0, 0, 1)], [(1, 0, 1)]], [[(0, 0, 2)], [(1, 0, 2)]]]
               None True [])) = 20"
proof -
  have h: "importing all_ok ''mayavi.mlab'' = None" by (simp add: all_ok_def)
  from plot_cell_six_calls [of "[(0, 0, 0)]" "[(1, 0, 0)]" "[(0, 0, 1)]" "[(1, 0, 1)]"
      "[(0, 0, 2)]" "[(1, 0, 2)]" "\<lambda>i. 0" "[]" all_ok None True] h
  show ?thesis by (simp add: mayavi_draw_def)
qed

text \<open>
  Claim C10. \<open>plot_cell\<close> does not read its \<open>clf\<close> parameter: the run is the same whatever
  its value. When mayavi imports, the scene is cleared exactly once, as the second call
  after the import, and no call made while drawing the curves clears it again, whatever the
  keyword arguments. When importing mayavi raises, the function raises before it clears
  anything.
\<close>

theorem plot_cell_clears_once:
  "plot_cell env rnd lines boundary clf kwargs = plot_cell env rnd lines boundary (\<not> clf) kwargs
   \<and> (importing env ''mayavi.mlab'' = None \<longrightarrow>
        fst (plot_cell env rnd lines boundary clf kwargs) =
          Import ''mayavi.mlab'' # MayClf #
            fst (run_calls env (cell_calls lines (cell_colours rnd (length lines)) kwargs))
        \<and> MayClf \<notin> set (fst (run_calls env
                              (cell_calls lines (cell_colours rnd (length lines)) kwargs))))
   \<and> (importing env ''mayavi.mlab'' \<noteq> None \<longrightarrow>
        MayClf \<notin> set (fst (plot_cell env rnd lines boundary clf kwargs))
        \<and> \<not> succeeded (plot_cell env rnd lines boundary clf kwargs))"
proof (intro conjI impI)
  show "plot_cell env rnd lines boundary clf kwargs =
      plot_cell env rnd lines boundary (\<not> clf) kwargs"
    by (simp add: plot_cell_def)
next
  assume a: "importing env ''mayavi.mlab'' = None"
  show "fst (plot_cell env rnd lines boundary clf kwargs) =
          Import ''mayavi.mlab'' # MayClf #
            fst (run_calls env (cell_calls lines (cell_colours rnd (length lines)) kwargs))"
    by (simp add: plot_cell_run [OF a] fst_after fst_and_then_ok)
  show "MayClf \<notin> set (fst (run_calls env
                              (cell_calls lines (cell_colours rnd (length lines)) kwargs)))"
    by (rule run_calls_no_clear) (rule cell_calls_clf)
next
  assume a: "importing env ''mayavi.mlab'' \<noteq> None"
  then obtain e where e: "importing env ''mayavi.mlab'' = Some e" by auto
  have run: "plot_cell env rnd lines boundary clf kwargs = ([Import ''mayavi.mlab''], Inl e)"
    by (simp add: plot_cell_def import_module_def and_then_attempt e)
  show "MayClf \<notin> set (fst (plot_cell env rnd lines boundary clf kwargs))"
    by (simp add: run)
  show "\<not> succeeded (plot_cell env rnd lines boundary clf kwargs)"
    by (simp add: run succeeded_def)
qed

theorem plot_cell_clears_once_witness:
  "importing all_ok ''mayavi.mlab'' = None
   \<and> plot_cell all_ok (\<lambda>i. 0) three_by_two None False [] =
       plot_cell all_ok (\<lambda>i. 0) three_by_two None True []
   \<and> take 2 (fst (plot_cell all_ok (\<lambda>i. 0) three_by_two None False [])) =
       [Import ''mayavi.mlab'', MayClf]
   \<and> MayClf \<notin> set (drop 2 (fst (plot_cell all_ok (\<lambda>i. 0) three_by_two None False [])))
   \<and> importing nothing_imports ''mayavi.mlab'' \<noteq> None
   \<and> MayClf \<notin> set (fst (plot_cell nothing_imports (\<lambda>i. 0) three_by_two None False []))"
proof -
  have h1: "importing all_ok ''mayavi.mlab'' = None" by (simp add: all_ok_def)
  have h2: "importing nothing_imports ''mayavi.mlab'' \<noteq> None"
    by (simp add: nothing_imports_def)
  note once = plot_cell_clears_once [of all_ok "\<lambda>i. 0" three_by_two None False "[]"]
  note never = plot_cell_clears_once [of nothing_imports "\<lambda>i. 0" three_by_two None False "[]"]
  from once have same: "plot_cell all_ok (\<lambda>i. 0) three_by_two None False [] =
       plot_cell all_ok (\<lambda>i. 0) three_by_two None True []"
    by simp
  from once h1 have run: "fst (plot_cell all_ok (\<lambda>i. 0) three_by_two None False []) =
      Import ''mayavi.mlab'' # MayClf #
        fst (run_calls all_ok
              (cell_calls three_by_two (cell_colours (\<lambda>i. 0) (length three_by_two)) []))"
    and rest: "MayClf \<notin> set (fst (run_calls all_ok
              (cell_calls three_by_two (cell_colours (\<lambda>i. 0) (length three_by_two)) [])))"
    by blast+
  from never h2 have none:
    "MayClf \<notin> set (fst (plot_cell nothing_imports (\<lambda>i. 0) three_by_two None False []))"
    by blast
  have "take 2 (fst (plot_cell all_ok (\<lambda>i. 0) three_by_two None False [])) =
       [Import ''mayavi.mlab'', MayClf]"
    by (simp add: run)
  moreover have
    "MayClf \<notin> set (drop 2 (fst (plot_cell all_ok (\<lambda>i. 0) three_by_two None False [])))"
    using rest by (simp add: run)
  ultimately show ?thesis
    using h1 h2 same none by blast
qed

end
